theory Spec2Isabelle
  imports Complex_Main "HOL-Library.AList_Mapping"
begin

section \<open>Outcomes of a call\<close>

text \<open>
  A Go function of the library either returns a value, returns a non-nil \<open>error\<close>, or
  aborts with a run-time panic. The three are kept apart: an error is a value the caller
  can inspect, a panic is not.
\<close>

datatype panic = IndexOutOfRange | MakeSliceLenOutOfRange

datatype error =
    UnexpectedEOF
  | ScannerError string
  | LineExceedsMaximum string
  | InvalidIesFormat string
  | KeywordNotAllowed string string
  | UnexpectedBlockKeyword
  | MoreBeforeKeyword
  | ExtraLineBeforeKeyword
  | TiltFileNotSupported
  | RequiredKeywordsMissing
  | ExpectedKeywordOrTilt string
  | LineContainsNoInteger
  | AtoiError string
  | ParseFloatError string
  | ValidationFailed string

datatype 'a result = Ok 'a | Err error | Panic panic

text \<open>
  What the library writes to the log: the one message of filereader.go, with the length
  of the line, the maximum and the line.
\<close>

datatype warning = LineExceedsMaximumWarning int int string

section \<open>Go integers\<close>

text \<open>
  Go's \<open>int\<close> is taken as the 64-bit signed integer of the usual platforms. Values are
  carried as \<open>int\<close>; \<open>wrap64\<close> is the two's-complement wrap-around of an arithmetic
  result and \<open>goDiv\<close> is Go's \<open>/\<close>, which truncates toward zero.
\<close>

definition wrap64 :: "int \<Rightarrow> int" where
  "wrap64 x = (x + 9223372036854775808) mod 18446744073709551616 - 9223372036854775808"

definition goDiv :: "int \<Rightarrow> int \<Rightarrow> int" where
  "goDiv a b = (if (a < 0) = (b < 0) then \<bar>a\<bar> div \<bar>b\<bar> else - (\<bar>a\<bar> div \<bar>b\<bar>))"

definition isGoInt :: "int \<Rightarrow> bool" where
  "isGoInt x = (- 9223372036854775808 \<le> x \<and> x < 9223372036854775808)"

section \<open>The IES data structure (ies.go)\<close>

text \<open>
  \<open>IESFormat\<close> and \<open>IESTilt\<close> are Go string types; their named constants are the
  string values of the source. The zero value of both is the empty string.
  \<open>float64\<close> values are never computed with by the functions modelled here, they are
  only stored and copied, so the float type is the parameter \<open>'f\<close>.
\<close>

type_synonym IESFormat = string
type_synonym IESTilt = string

abbreviation IESFormatUnknown :: IESFormat where "IESFormatUnknown \<equiv> ''UNKNOWN''"
abbreviation IESFormatLM_63_1986 :: IESFormat where "IESFormatLM_63_1986 \<equiv> ''LM-63-1986''"
abbreviation IESFormatLM_63_1991 :: IESFormat where "IESFormatLM_63_1991 \<equiv> ''LM-63-1991''"
abbreviation IESFormatLM_63_1995 :: IESFormat where "IESFormatLM_63_1995 \<equiv> ''LM-63-1995''"
abbreviation IESFormatLM_63_2002 :: IESFormat where "IESFormatLM_63_2002 \<equiv> ''LM-63-2002''"

abbreviation IESTiltInclude :: IESTilt where "IESTiltInclude \<equiv> ''INCLUDE''"
abbreviation IESTiltFile :: IESTilt where "IESTiltFile \<equiv> ''FILE''"
abbreviation IESTiltNone :: IESTilt where "IESTiltNone \<equiv> ''NONE''"

record 'f IES =
  Format :: IESFormat
  Keywords :: "(string, string) mapping"
  Tilt :: IESTilt
  TiltLampToLuminaireGeometry :: int
  TiltAnglesAndFactors :: int
  TiltAngles :: "'f list"
  TiltMultiplierFactors :: "'f list"
  NumberLamps :: int
  LumensPerLamp :: 'f
  CandelaMultiplier :: 'f
  NumberVerticalAngles :: int
  NumberHorizontalAngles :: int
  PhotometricType :: int
  UnitsType :: int
  LuminaireWidth :: 'f
  LuminaireLength :: 'f
  LuminaireHeight :: 'f
  BallastFactor :: 'f
  FutureUse :: 'f
  InputWatts :: 'f
  VerticalAngles :: "'f list"
  HorizontalAngles :: "'f list"
  CandelaValues :: "'f list list"
  insideBlock :: bool
  lastKeyword :: string
  strictParsing :: bool

text \<open>The zero value of the struct (\<open>var ies IES\<close>, or an omitted field of a literal).\<close>

definition zeroIES :: "('f::zero) IES" where
  "zeroIES =
     \<lparr> Format = [], Keywords = Mapping.empty, Tilt = [],
       TiltLampToLuminaireGeometry = 0, TiltAnglesAndFactors = 0,
       TiltAngles = [], TiltMultiplierFactors = [],
       NumberLamps = 0, LumensPerLamp = 0, CandelaMultiplier = 0,
       NumberVerticalAngles = 0, NumberHorizontalAngles = 0,
       PhotometricType = 0, UnitsType = 0,
       LuminaireWidth = 0, LuminaireLength = 0, LuminaireHeight = 0,
       BallastFactor = 0, FutureUse = 0, InputWatts = 0,
       VerticalAngles = [], HorizontalAngles = [], CandelaValues = [],
       insideBlock = False, lastKeyword = [], strictParsing = False \<rparr>"

section \<open>The EULUMDAT data structure\<close>

record 'f Eulumdat =
  CompanyIdentification :: string
  TypeIndicator :: int
  SymmetryIndicator :: int
  NumberMcCPlanes :: int
  DistanceDcCPlanes :: 'f
  NumberNgIntensitiesCPlane :: int
  DistanceDgCPlane :: 'f
  MeasurementReportNumber :: string
  LuminaireName :: string
  LuminaireNumber :: string
  FileName :: string
  DateUser :: string
  LengthDiameter :: 'f
  WidthLuminaire :: 'f
  HeightLuminaire :: 'f
  LengthDiameterLuminousArea :: 'f
  WidthLuminousArea :: 'f
  HeightLuminousAreaC0 :: 'f
  HeightLuminousAreaC90 :: 'f
  HeightLuminousAreaC180 :: 'f
  HeightLuminousAreaC270 :: 'f
  DownwardFluxFractionPhiu :: 'f
  LightOutputRatioLuminaire :: 'f
  IntensityConversionFactor :: 'f
  MeasurementTiltLuminaire :: 'f
  NumberStandardSetLamps :: int
  NumberLampsE :: "int list"
  TypeLamps :: "string list"
  TotalLuminousFluxLamps :: "'f list"
  ColorTemperature :: "string list"
  ColorRenderingIndexCRI :: "string list"
  BallastWatts :: "'f list"
  DirectRatios :: "'f list"
  AnglesC :: "'f list"
  AnglesG :: "'f list"
  LuminousIntensityDistributionRaw :: "'f list"
  LuminousIntensityDistribution :: "'f list list"
  mc1 :: int
  mc2 :: int
  mc :: int

text \<open>
  The field \<open>NumberLamps\<close> of the EULUMDAT structure is \<open>NumberLampsE\<close> here, the
  name being taken by the field of the IES structure. \<open>zeroEulumdat\<close> is the zero value
  of the struct.
\<close>

definition zeroEulumdat :: "('f::zero) Eulumdat" where
  "zeroEulumdat =
     \<lparr> CompanyIdentification = [], TypeIndicator = 0, SymmetryIndicator = 0,
       NumberMcCPlanes = 0, DistanceDcCPlanes = 0, NumberNgIntensitiesCPlane = 0,
       DistanceDgCPlane = 0, MeasurementReportNumber = [], LuminaireName = [],
       LuminaireNumber = [], FileName = [], DateUser = [], LengthDiameter = 0,
       WidthLuminaire = 0, HeightLuminaire = 0, LengthDiameterLuminousArea = 0,
       WidthLuminousArea = 0, HeightLuminousAreaC0 = 0, HeightLuminousAreaC90 = 0,
       HeightLuminousAreaC180 = 0, HeightLuminousAreaC270 = 0,
       DownwardFluxFractionPhiu = 0, LightOutputRatioLuminaire = 0,
       IntensityConversionFactor = 0, MeasurementTiltLuminaire = 0,
       NumberStandardSetLamps = 0, NumberLampsE = [], TypeLamps = [],
       TotalLuminousFluxLamps = [], ColorTemperature = [], ColorRenderingIndexCRI = [],
       BallastWatts = [], DirectRatios = replicate 10 0, AnglesC = [], AnglesG = [],
       LuminousIntensityDistributionRaw = [], LuminousIntensityDistribution = [],
       mc1 = 0, mc2 = 0, mc = 0 \<rparr>"

text \<open>
  \<open>calcMc1andMc2\<close> and \<open>calcMc\<close>: a Go \<open>switch\<close> on the symmetry indicator with no
  default branch, so any other indicator leaves the three fields as they were. The
  arithmetic is Go's: every product, quotient and sum is a machine integer.
\<close>

definition calcMc1andMc2 :: "'f Eulumdat \<Rightarrow> 'f Eulumdat" where
  "calcMc1andMc2 e =
     (if SymmetryIndicator e = 0 then e\<lparr>mc1 := 1, mc2 := NumberMcCPlanes e\<rparr>
      else if SymmetryIndicator e = 1 then e\<lparr>mc1 := 1, mc2 := 1\<rparr>
      else if SymmetryIndicator e = 2 then
        e\<lparr>mc1 := 1, mc2 := wrap64 (goDiv (NumberMcCPlanes e) 2 + 1)\<rparr>
      else if SymmetryIndicator e = 3 then
        (let m1 = wrap64 (goDiv (wrap64 (3 * NumberMcCPlanes e)) 4 + 1)
         in e\<lparr>mc1 := m1, mc2 := wrap64 (m1 + goDiv (NumberMcCPlanes e) 2)\<rparr>)
      else if SymmetryIndicator e = 4 then
        e\<lparr>mc1 := 1, mc2 := wrap64 (goDiv (NumberMcCPlanes e) 4 + 1)\<rparr>
      else e)"

definition calcMc :: "'f Eulumdat \<Rightarrow> 'f Eulumdat" where
  "calcMc e =
     (if SymmetryIndicator e = 0 then e\<lparr>mc := NumberMcCPlanes e\<rparr>
      else if SymmetryIndicator e = 1 then e\<lparr>mc := 1\<rparr>
      else if SymmetryIndicator e = 2 \<or> SymmetryIndicator e = 3 then
        e\<lparr>mc := wrap64 (goDiv (NumberMcCPlanes e) 2 + 1)\<rparr>
      else if SymmetryIndicator e = 4 then
        e\<lparr>mc := wrap64 (goDiv (NumberMcCPlanes e) 4 + 1)\<rparr>
      else e)"

section \<open>Conversion (conversion.go)\<close>

text \<open>
  \<open>ConvertEulumdatToIES\<close> indexes four of the lamp arrays at 0. Indexing an empty Go
  slice panics with "index out of range"; the model makes each of these reads a branch.
  The reads happen in the order TypeLamps, NumberLamps, TotalLuminousFluxLamps,
  BallastWatts.
\<close>

definition index0 :: "'a list \<Rightarrow> 'a result" where
  "index0 xs = (case xs of [] \<Rightarrow> Panic IndexOutOfRange | x # _ \<Rightarrow> Ok x)"

definition ConvertEulumdatToIES :: "('f::{zero,one}) Eulumdat \<Rightarrow> 'f IES result" where
  "ConvertEulumdatToIES eulumdat =
     (case index0 (TypeLamps eulumdat) of
        Panic p \<Rightarrow> Panic p
      | Err e \<Rightarrow> Err e
      | Ok lamp \<Rightarrow>
     (case index0 (NumberLampsE eulumdat) of
        Panic p \<Rightarrow> Panic p
      | Err e \<Rightarrow> Err e
      | Ok nlamps \<Rightarrow>
     (case index0 (TotalLuminousFluxLamps eulumdat) of
        Panic p \<Rightarrow> Panic p
      | Err e \<Rightarrow> Err e
      | Ok flux \<Rightarrow>
     (case index0 (BallastWatts eulumdat) of
        Panic p \<Rightarrow> Panic p
      | Err e \<Rightarrow> Err e
      | Ok watts \<Rightarrow>
        Ok (zeroIES
          \<lparr> Format := IESFormatLM_63_2002,
            Keywords :=
              Mapping.update ''OTHER'' (''converted using eulumies: '' @ FileName eulumdat)
              (Mapping.update ''LAMP'' lamp
              (Mapping.update ''LUMCAT'' (LuminaireNumber eulumdat)
              (Mapping.update ''LUMINAIRE'' (LuminaireName eulumdat)
              (Mapping.update ''MANUFAC'' (CompanyIdentification eulumdat)
              (Mapping.update ''ISSUEDATE'' (DateUser eulumdat)
              (Mapping.update ''TESTLAB'' (CompanyIdentification eulumdat)
              (Mapping.update ''TEST'' (MeasurementReportNumber eulumdat)
                 Mapping.empty))))))),
            Tilt := IESTiltNone,
            NumberLamps := nlamps,
            LumensPerLamp := flux,
            CandelaMultiplier := 1,
            NumberVerticalAngles := int (length (AnglesG eulumdat)),
            NumberHorizontalAngles := 1,
            PhotometricType := 1,
            UnitsType := 2,
            LuminaireWidth := WidthLuminaire eulumdat,
            LuminaireLength := LengthDiameter eulumdat,
            LuminaireHeight := HeightLuminaire eulumdat,
            BallastFactor := 1,
            FutureUse := 1,
            InputWatts := watts,
            VerticalAngles := AnglesG eulumdat,
            HorizontalAngles := [0],
            CandelaValues := LuminousIntensityDistribution eulumdat \<rparr>)))))"

text \<open>
  \<open>ConvertIESToEulumdat\<close> is \<open>return nil, nil\<close>: a nil model together with a nil
  error. The pair is (model, error).
\<close>

definition ConvertIESToEulumdat :: "'f IES \<Rightarrow> 'f Eulumdat option \<times> error option" where
  "ConvertIESToEulumdat ies = (None, None)"

section \<open>Line reader (filereader.go) and the scanner\<close>

text \<open>
  A \<open>bufio.Scanner\<close> with the default line splitter is modelled by the lines it will
  still deliver (each without its line terminator), the current token (\<open>Text()\<close>),
  the read error that ends the input in place of a clean end of file, if any, and whether
  \<open>Scan\<close> has already returned false. \<open>Err()\<close> reports the read error once
  \<open>Scan\<close> has returned false. Strings are byte strings; the white space of
  \<open>strings.TrimSpace\<close> and \<open>bufio.ScanWords\<close> is the ASCII white space (both
  formats are ASCII).
\<close>

record Scanner =
  scanLines :: "string list"
  scanText :: string
  scanReadError :: "string option"
  scanStopped :: bool

definition Scan :: "Scanner \<Rightarrow> bool \<times> Scanner" where
  "Scan sc =
     (case scanLines sc of
        [] \<Rightarrow> (False, sc\<lparr>scanText := [], scanStopped := True\<rparr>)
      | l # ls \<Rightarrow> (True, sc\<lparr>scanLines := ls, scanText := l\<rparr>))"

definition scannerErr :: "Scanner \<Rightarrow> error option" where
  "scannerErr sc =
     (if scanStopped sc then map_option ScannerError (scanReadError sc) else None)"

text \<open>The error of a failed \<open>Scan\<close>: the read error, or else "unexpected EOF".\<close>

definition scanFailure :: "Scanner \<Rightarrow> error" where
  "scanFailure sc = (case scannerErr sc of Some e \<Rightarrow> e | None \<Rightarrow> UnexpectedEOF)"

definition isSpace :: "char \<Rightarrow> bool" where
  "isSpace c = (c = CHR 0x09 \<or> c = CHR 0x0A \<or> c = CHR 0x0B \<or> c = CHR 0x0C
                \<or> c = CHR 0x0D \<or> c = CHR '' '')"

definition TrimSpace :: "string \<Rightarrow> string" where
  "TrimSpace s = rev (dropWhile isSpace (rev (dropWhile isSpace s)))"

text \<open>
  \<open>validateStringFromLine\<close>. The second component of the result is what the call
  writes to the log.
\<close>

definition validateStringFromLine ::
  "Scanner \<Rightarrow> int \<Rightarrow> bool \<Rightarrow> (string \<times> Scanner) result \<times> warning list" where
  "validateStringFromLine scanner maxLength strict =
     (case Scan scanner of
        (False, sc) \<Rightarrow> (Err (scanFailure sc), [])
      | (True, sc) \<Rightarrow>
          (let cleanLine = TrimSpace (scanText sc) in
           if int (length cleanLine) > maxLength \<and> strict then
             (Err (LineExceedsMaximum cleanLine), [])
           else if int (length cleanLine) > maxLength \<and> \<not> strict then
             (Ok (cleanLine, sc),
              [LineExceedsMaximumWarning (int (length cleanLine)) maxLength cleanLine])
           else (Ok (cleanLine, sc), [])))"

section \<open>Regular expressions of ies.go\<close>

text \<open>
  The three patterns are \<open>^\[(_*\w*)\]\s+(.*)$\<close>, \<open>^\s+(.*)$\<close> and
  \<open>^TILT\s*=\s*(.*)$\<close>. In Go's syntax \<open>\w\<close> is \<open>[0-9A-Za-z_]\<close>, \<open>\s\<close> is
  \<open>[\t\n\f\r ]\<close>, \<open>.\<close> is any character but a newline, and \<open>$\<close> is the end of
  the text. A greedy white-space run followed by \<open>(.*)$\<close> matches exactly when the text
  after the longest run has no newline, and the group is that text.
\<close>

definition isWordChar :: "char \<Rightarrow> bool" where
  "isWordChar c =
     (let n = (of_char c :: nat)
      in (48 \<le> n \<and> n \<le> 57) \<or> (65 \<le> n \<and> n \<le> 90) \<or> (97 \<le> n \<and> n \<le> 122) \<or> n = 95)"

definition isReSpace :: "char \<Rightarrow> bool" where
  "isReSpace c = (c = CHR 0x09 \<or> c = CHR 0x0A \<or> c = CHR 0x0C \<or> c = CHR 0x0D \<or> c = CHR '' '')"

definition restGroup :: "string \<Rightarrow> string option" where
  "restGroup s =
     (let v = dropWhile isReSpace s in if CHR 0x0A \<in> set v then None else Some v)"

definition keywordRegex :: "string \<Rightarrow> (string \<times> string) option" where
  "keywordRegex line =
     (case line of
        [] \<Rightarrow> None
      | c # r \<Rightarrow>
          if c \<noteq> CHR ''['' then None
          else (case dropWhile isWordChar r of
                  [] \<Rightarrow> None
                | d # r' \<Rightarrow>
                    if d \<noteq> CHR '']'' then None
                    else (case r' of
                            [] \<Rightarrow> None
                          | w # _ \<Rightarrow>
                              if \<not> isReSpace w then None
                              else map_option (Pair (takeWhile isWordChar r)) (restGroup r'))))"

definition keywordExtraRegex :: "string \<Rightarrow> string option" where
  "keywordExtraRegex line =
     (case line of
        [] \<Rightarrow> None
      | w # _ \<Rightarrow> if \<not> isReSpace w then None else restGroup line)"

definition tiltRegex :: "string \<Rightarrow> string option" where
  "tiltRegex line =
     (if take 4 line \<noteq> ''TILT'' then None
      else (case dropWhile isReSpace (drop 4 line) of
              [] \<Rightarrow> None
            | c # r \<Rightarrow> if c \<noteq> CHR ''='' then None else restGroup r))"

definition isKeywordLine :: "string \<Rightarrow> bool" where
  "isKeywordLine line = (keywordRegex line \<noteq> None)"

definition isKeywordExtraLine :: "string \<Rightarrow> bool" where
  "isKeywordExtraLine line = (keywordExtraRegex line \<noteq> None)"

definition isTiltLine :: "string \<Rightarrow> bool" where
  "isTiltLine line = (tiltRegex line \<noteq> None)"

section \<open>Keyword rules per revision (ies.go)\<close>

definition keywordAllowedByIesna02 :: "string \<Rightarrow> bool" where
  "keywordAllowedByIesna02 keyword =
     (keyword = ''TEST'' \<or> keyword = ''TESTLAB'' \<or> keyword = ''TESTDATE''
      \<or> keyword = ''NEARFIELD'' \<or> keyword = ''MANUFAC'' \<or> keyword = ''LUMCAT''
      \<or> keyword = ''LUMINAIRE'' \<or> keyword = ''LAMPCAT'' \<or> keyword = ''LAMP''
      \<or> keyword = ''BALLAST'' \<or> keyword = ''BALLASTCAT'' \<or> keyword = ''MAINTCAT''
      \<or> keyword = ''DISTRIBUTION'' \<or> keyword = ''FLASHAREA'' \<or> keyword = ''COLORCONSTANT''
      \<or> keyword = ''LAMPPOSITION'' \<or> keyword = ''ISSUEDATE'' \<or> keyword = ''OTHER''
      \<or> keyword = ''SEARCH'' \<or> keyword = ''MORE'')"

definition keywordAllowedByIesna95 :: "string \<Rightarrow> bool" where
  "keywordAllowedByIesna95 keyword =
     (keyword = ''TEST'' \<or> keyword = ''DATE'' \<or> keyword = ''NEARFIELD''
      \<or> keyword = ''MANUFAC'' \<or> keyword = ''LUMCAT'' \<or> keyword = ''LUMINAIRE''
      \<or> keyword = ''LAMPCAT'' \<or> keyword = ''LAMP'' \<or> keyword = ''BALLAST''
      \<or> keyword = ''BALLASTCAT'' \<or> keyword = ''MAINTCAT'' \<or> keyword = ''DISTRIBUTION''
      \<or> keyword = ''FLASHAREA'' \<or> keyword = ''COLORCONSTANT'' \<or> keyword = ''OTHER''
      \<or> keyword = ''SEARCH'' \<or> keyword = ''MORE'' \<or> keyword = ''BLOCK''
      \<or> keyword = ''ENDBLOCK'')"

definition keywordAllowedByIesna91 :: "string \<Rightarrow> bool" where
  "keywordAllowedByIesna91 keyword =
     (keyword = ''TEST'' \<or> keyword = ''DATE'' \<or> keyword = ''MANUFAC''
      \<or> keyword = ''LUMCAT'' \<or> keyword = ''LUMINAIRE'' \<or> keyword = ''LAMPCAT''
      \<or> keyword = ''LAMP'' \<or> keyword = ''BALLAST'' \<or> keyword = ''BALLASTCAT''
      \<or> keyword = ''MAINTCAT'' \<or> keyword = ''DISTRIBUTION'' \<or> keyword = ''FLASHAREA''
      \<or> keyword = ''COLORCONSTANT'' \<or> keyword = ''MORE'')"

definition isKeywordAllowed :: "'f IES \<Rightarrow> string \<Rightarrow> bool" where
  "isKeywordAllowed i keyword =
     (if keyword = [] then False
      else if length keyword > 18 then False
      else if Format i = IESFormatUnknown \<or> Format i = [] then True
      else if hd keyword = CHR ''_'' then True
      else if Format i = IESFormatLM_63_1986 then True
      else if Format i = IESFormatLM_63_1991 then keywordAllowedByIesna91 keyword
      else if Format i = IESFormatLM_63_1995 then keywordAllowedByIesna95 keyword
      else if Format i = IESFormatLM_63_2002 then keywordAllowedByIesna02 keyword
      else True)"

definition checkIesna02RequiredKeywords :: "(string, string) mapping \<Rightarrow> bool" where
  "checkIesna02RequiredKeywords keywords =
     list_all (\<lambda>keyword. Mapping.lookup keywords keyword \<noteq> None)
       [''TEST'', ''TESTLAB'', ''ISSUEDATE'', ''MANUFAC'']"

definition checkIesna91RequiredKeywords :: "(string, string) mapping \<Rightarrow> bool" where
  "checkIesna91RequiredKeywords keywords =
     list_all (\<lambda>keyword. Mapping.lookup keywords keyword \<noteq> None) [''TEST'', ''MANUFAC'']"

definition ContainsRequiredKeywords :: "'f IES \<Rightarrow> bool" where
  "ContainsRequiredKeywords i =
     (if Format i = IESFormatUnknown \<or> Format i = [] then True
      else if Format i = IESFormatLM_63_1986 then True
      else if Format i = IESFormatLM_63_1991 then checkIesna91RequiredKeywords (Keywords i)
      else if Format i = IESFormatLM_63_1995 then True
      else if Format i = IESFormatLM_63_2002 then checkIesna02RequiredKeywords (Keywords i)
      else True)"

section \<open>Parsing steps of the IES reader (ies.go)\<close>

definition parseFormatVersion :: "'f IES \<Rightarrow> string \<Rightarrow> 'f IES result" where
  "parseFormatVersion i line =
     (if line = ''IESNA91'' then Ok (i\<lparr>Format := IESFormatLM_63_1991\<rparr>)
      else if line = ''IESNA:LM-63-1995'' then Ok (i\<lparr>Format := IESFormatLM_63_1995\<rparr>)
      else if line = ''IESNA:LM-63-2002'' then Ok (i\<lparr>Format := IESFormatLM_63_2002\<rparr>)
      else Err (InvalidIesFormat line))"

definition maxKeywordLineLength :: "'f IES \<Rightarrow> int" where
  "maxKeywordLineLength i =
     (if Format i = IESFormatLM_63_1986 then 82 - 2
      else if Format i = IESFormatLM_63_1991 then 82 - 2
      else if Format i = IESFormatLM_63_1995 then 82 - 2
      else if Format i = IESFormatLM_63_2002 then 256 - 2
      else 0)"

definition maxDataLineLength :: "'f IES \<Rightarrow> int" where
  "maxDataLineLength i =
     (if Format i = IESFormatLM_63_1986 then 132 - 2
      else if Format i = IESFormatLM_63_1991 then 132 - 2
      else if Format i = IESFormatLM_63_1995 then 132 - 2
      else if Format i = IESFormatLM_63_2002 then 256 - 2
      else 0)"

text \<open>
  \<open>checkKeywordBlock\<close> returns its verdict and the receiver as it leaves it; a refusal
  leaves the flag unchanged.
\<close>

definition checkKeywordBlock :: "'f IES \<Rightarrow> string \<Rightarrow> bool \<times> 'f IES" where
  "checkKeywordBlock i keyword =
     (if keyword = ''BLOCK'' then
        (if insideBlock i then (False, i) else (True, i\<lparr>insideBlock := True\<rparr>))
      else if keyword = ''ENDBLOCK'' then
        (if \<not> insideBlock i then (False, i) else (True, i\<lparr>insideBlock := False\<rparr>))
      else (True, i))"

text \<open>
  \<open>i.Keywords[k] += s\<close> reads the entry (the empty string when the key is absent) and
  stores the concatenation. \<open>len(i.Keywords) == 0\<close> is emptiness of the map.
\<close>

definition appendToKeyword ::
  "(string, string) mapping \<Rightarrow> string \<Rightarrow> string \<Rightarrow> (string, string) mapping" where
  "appendToKeyword keywords k s =
     Mapping.update k ((case Mapping.lookup keywords k of None \<Rightarrow> [] | Some old \<Rightarrow> old) @ s)
       keywords"

definition parseKeywordLine :: "'f IES \<Rightarrow> string \<Rightarrow> 'f IES result" where
  "parseKeywordLine i line =
     (case keywordRegex line of
        None \<Rightarrow> Panic IndexOutOfRange
      | Some (keyword, val) \<Rightarrow>
          if \<not> isKeywordAllowed i keyword then Err (KeywordNotAllowed keyword (Format i))
          else (case checkKeywordBlock i keyword of
                  (False, i') \<Rightarrow> Err UnexpectedBlockKeyword
                | (True, i') \<Rightarrow>
                    if keyword = ''MORE'' then
                      (if Mapping.is_empty (Keywords i') \<or> lastKeyword i' = [] then Err MoreBeforeKeyword
                       else Ok (i'\<lparr>Keywords :=
                                   appendToKeyword (Keywords i') (lastKeyword i') (CHR 0x0A # val)\<rparr>))
                    else Ok (i'\<lparr>Keywords := Mapping.update keyword val (Keywords i'),
                                lastKeyword := keyword\<rparr>)))"

definition parseKeywordExtraLine :: "'f IES \<Rightarrow> string \<Rightarrow> 'f IES result" where
  "parseKeywordExtraLine i line =
     (case keywordExtraRegex line of
        None \<Rightarrow> Panic IndexOutOfRange
      | Some val \<Rightarrow>
          if Mapping.is_empty (Keywords i) \<or> lastKeyword i = [] then Err ExtraLineBeforeKeyword
          else Ok (i\<lparr>Keywords := appendToKeyword (Keywords i) (lastKeyword i) (CHR 0x0A # val)\<rparr>))"

text \<open>
  \<open>parseTiltLine\<close> sets the tilt to FILE before it refuses a file name; the caller
  drops the model on an error, so only the error is returned here.
\<close>

definition parseTiltLine :: "'f IES \<Rightarrow> string \<Rightarrow> 'f IES result" where
  "parseTiltLine i line =
     (case tiltRegex line of
        None \<Rightarrow> Panic IndexOutOfRange
      | Some val \<Rightarrow>
          if val = ''INCLUDE'' then Ok (i\<lparr>Tilt := IESTiltInclude\<rparr>)
          else if val = ''NONE'' then Ok (i\<lparr>Tilt := IESTiltNone\<rparr>)
          else Err TiltFileNotSupported)"

text \<open>
  \<open>fetchValidLineFromFile\<close> compares the untrimmed line with the data-line budget of
  the format. It has no call to the log.
\<close>

definition fetchValidLineFromFile :: "'f IES \<Rightarrow> Scanner \<Rightarrow> (string \<times> Scanner) result" where
  "fetchValidLineFromFile i scanner =
     (let lineLength = maxDataLineLength i in
      case Scan scanner of
        (False, sc) \<Rightarrow> Err (scanFailure sc)
      | (True, sc) \<Rightarrow>
          if int (length (scanText sc)) > lineLength \<and> strictParsing i then
            Err (LineExceedsMaximum (scanText sc))
          else Ok (scanText sc, sc))"

section \<open>Numbers and word lists (ies.go)\<close>

text \<open>
  \<open>strconv.Atoi\<close> and \<open>strconv.ParseFloat\<close> belong to Go's standard library; they
  are the parameters \<open>atoi\<close> and \<open>parseFloat\<close>, \<open>None\<close> standing for their error.
\<close>

definition getIntFromLine :: "(string \<Rightarrow> int option) \<Rightarrow> string \<Rightarrow> int result" where
  "getIntFromLine atoi line =
     (let cleanLine = filter (\<lambda>c. c \<noteq> CHR ''_'') (filter (\<lambda>c. c \<noteq> CHR '' '') (TrimSpace line)) in
      if length cleanLine = 0 then Err LineContainsNoInteger
      else (case atoi cleanLine of None \<Rightarrow> Err (AtoiError cleanLine) | Some v \<Rightarrow> Ok v))"

fun convertStringSliceToFloat :: "(string \<Rightarrow> 'f option) \<Rightarrow> string list \<Rightarrow> 'f list result" where
  "convertStringSliceToFloat parseFloat [] = Ok []"
| "convertStringSliceToFloat parseFloat (str # rest) =
     (case parseFloat str of
        None \<Rightarrow> Err (ParseFloatError str)
      | Some flt \<Rightarrow>
          (case convertStringSliceToFloat parseFloat rest of
             Ok fs \<Rightarrow> Ok (flt # fs)
           | Err e \<Rightarrow> Err e
           | Panic p \<Rightarrow> Panic p))"

text \<open>\<open>bufio.ScanWords\<close>: the maximal runs of characters that are not white space.\<close>

fun scanWords :: "string \<Rightarrow> string \<Rightarrow> string list" where
  "scanWords cur [] = (if cur = [] then [] else [cur])"
| "scanWords cur (c # cs) =
     (if isSpace c then (if cur = [] then scanWords [] cs else cur # scanWords [] cs)
      else scanWords (cur @ [c]) cs)"

text \<open>
  The inner loop of \<open>getWordListFromInput\<close>: each word is written to
  \<open>list[processed]\<close>. The source does not compare \<open>processed\<close> with the length of
  \<open>list\<close>; Go's index check does, and panics.
\<close>

fun storeWords :: "string list \<Rightarrow> string list \<Rightarrow> nat \<Rightarrow> (string list \<times> nat) result" where
  "storeWords [] list processed = Ok (list, processed)"
| "storeWords (w # ws) list processed =
     (if processed < length list
      then storeWords ws (list[processed := TrimSpace w]) (Suc processed)
      else Panic IndexOutOfRange)"

function wordLoop ::
  "Scanner \<Rightarrow> nat \<Rightarrow> bool \<Rightarrow> string list \<Rightarrow> nat \<Rightarrow> (string list \<times> Scanner) result" where
  "wordLoop scanner sz lastScan list processed =
     (if processed < sz then
        (case storeWords (scanWords [] (TrimSpace (scanText scanner))) list processed of
           Panic p \<Rightarrow> Panic p
         | Err e \<Rightarrow> Err e
         | Ok (list', processed') \<Rightarrow>
             if processed' < sz \<or> \<not> lastScan then
               (case Scan scanner of
                  (False, sc) \<Rightarrow> Err (scanFailure sc)
                | (True, sc) \<Rightarrow> wordLoop sc sz lastScan list' processed')
             else wordLoop scanner sz lastScan list' processed')
      else Ok (list, scanner))"
  by pat_completeness auto
termination
  by (relation "measures [\<lambda>(sc, sz, lastScan, list, processed). length (scanLines sc),
                          \<lambda>(sc, sz, lastScan, list, processed). sz - processed]")
     (auto simp: Scan_def split: list.splits)

text \<open>
  \<open>make([]string, size)\<close> panics for a negative size; otherwise the list starts as
  \<open>size\<close> empty strings.
\<close>

definition getWordListFromInput :: "Scanner \<Rightarrow> int \<Rightarrow> bool \<Rightarrow> (string list \<times> Scanner) result" where
  "getWordListFromInput scanner sz lastScan =
     (if sz < 0 then Panic MakeSliceLenOutOfRange
      else wordLoop scanner (nat sz) lastScan (replicate (nat sz) []) 0)"

section \<open>NewIES (ies.go)\<close>

text \<open>
  \<open>andThen\<close> is the early return \<open>if err != nil { return nil, err }\<close>; a panic
  propagates the same way. \<open>goIndex\<close> is Go's checked indexing.
\<close>

definition andThen :: "'a result \<Rightarrow> ('a \<Rightarrow> 'b result) \<Rightarrow> 'b result" where
  "andThen r f = (case r of Ok x \<Rightarrow> f x | Err e \<Rightarrow> Err e | Panic p \<Rightarrow> Panic p)"

definition goIndex :: "'a list \<Rightarrow> nat \<Rightarrow> 'a result" where
  "goIndex xs k = (if k < length xs then Ok (xs ! k) else Panic IndexOutOfRange)"

definition atoiAt :: "(string \<Rightarrow> int option) \<Rightarrow> string list \<Rightarrow> nat \<Rightarrow> int result" where
  "atoiAt atoi ws k =
     andThen (goIndex ws k)
       (\<lambda>w. case atoi w of None \<Rightarrow> Err (AtoiError w) | Some v \<Rightarrow> Ok v)"

definition floatAt :: "(string \<Rightarrow> 'f option) \<Rightarrow> string list \<Rightarrow> nat \<Rightarrow> 'f result" where
  "floatAt parseFloat ws k =
     andThen (goIndex ws k)
       (\<lambda>w. case parseFloat w of None \<Rightarrow> Err (ParseFloatError w) | Some v \<Rightarrow> Ok v)"

text \<open>
  The loop \<open>for !tiltReached\<close>: it is entered with the line fetched last, and every
  round ends by fetching the next line. It returns the model, the line fetched after the
  TILT line, and the scanner.
\<close>

function NewIES_keywordLoop ::
  "'f IES \<Rightarrow> string \<Rightarrow> Scanner \<Rightarrow> ('f IES \<times> string \<times> Scanner) result" where
  "NewIES_keywordLoop ies line scanner =
     (if isKeywordLine line then
        (case parseKeywordLine ies line of
           Panic p \<Rightarrow> Panic p
         | Err e \<Rightarrow> Err e
         | Ok ies' \<Rightarrow>
             (case fetchValidLineFromFile ies' scanner of
                Panic p \<Rightarrow> Panic p
              | Err e \<Rightarrow> Err e
              | Ok (line', sc) \<Rightarrow> NewIES_keywordLoop ies' line' sc))
      else if isTiltLine line then
        (if \<not> ContainsRequiredKeywords ies then Err RequiredKeywordsMissing
         else (case parseTiltLine ies line of
                 Panic p \<Rightarrow> Panic p
               | Err e \<Rightarrow> Err e
               | Ok ies' \<Rightarrow>
                   (case fetchValidLineFromFile ies' scanner of
                      Panic p \<Rightarrow> Panic p
                    | Err e \<Rightarrow> Err e
                    | Ok (line', sc) \<Rightarrow> Ok (ies', line', sc))))
      else if isKeywordExtraLine line then
        (case parseKeywordExtraLine ies line of
           Panic p \<Rightarrow> Panic p
         | Err e \<Rightarrow> Err e
         | Ok ies' \<Rightarrow>
             (case fetchValidLineFromFile ies' scanner of
                Panic p \<Rightarrow> Panic p
              | Err e \<Rightarrow> Err e
              | Ok (line', sc) \<Rightarrow> NewIES_keywordLoop ies' line' sc))
      else Err (ExpectedKeywordOrTilt line))"
  by pat_completeness auto
termination
  by (relation "measure (\<lambda>(ies, line, sc). length (scanLines sc))")
     (auto simp: fetchValidLineFromFile_def Scan_def Let_def split: list.splits if_splits)

definition NewIES_tiltValues ::
  "(string \<Rightarrow> int option) \<Rightarrow> (string \<Rightarrow> 'f option) \<Rightarrow> 'f IES \<Rightarrow> string \<Rightarrow> Scanner
     \<Rightarrow> ('f IES \<times> Scanner) result" where
  "NewIES_tiltValues atoi parseFloat ies line scanner =
     (if Tilt ies = IESTiltInclude then
        andThen (getIntFromLine atoi line) (\<lambda>geometry.
        andThen (fetchValidLineFromFile (ies\<lparr>TiltLampToLuminaireGeometry := geometry\<rparr>) scanner)
          (\<lambda>(line2, sc2).
        andThen (getIntFromLine atoi line2) (\<lambda>count.
        andThen (getWordListFromInput sc2 count False) (\<lambda>(words, sc3).
        andThen (convertStringSliceToFloat parseFloat words) (\<lambda>angles.
        andThen (getWordListFromInput sc3 count False) (\<lambda>(words2, sc4).
        andThen (convertStringSliceToFloat parseFloat words2) (\<lambda>factors.
          Ok (ies\<lparr>TiltLampToLuminaireGeometry := geometry, TiltAnglesAndFactors := count,
                   TiltAngles := angles, TiltMultiplierFactors := factors\<rparr>, sc4))))))))
      else Ok (ies, scanner))"

definition NewIES_line10 ::
  "(string \<Rightarrow> int option) \<Rightarrow> (string \<Rightarrow> 'f option) \<Rightarrow> 'f IES \<Rightarrow> string list \<Rightarrow> 'f IES result" where
  "NewIES_line10 atoi parseFloat ies words =
     andThen (atoiAt atoi words 0) (\<lambda>v0.
     andThen (floatAt parseFloat words 1) (\<lambda>v1.
     andThen (floatAt parseFloat words 2) (\<lambda>v2.
     andThen (atoiAt atoi words 3) (\<lambda>v3.
     andThen (atoiAt atoi words 4) (\<lambda>v4.
     andThen (atoiAt atoi words 5) (\<lambda>v5.
     andThen (atoiAt atoi words 6) (\<lambda>v6.
     andThen (floatAt parseFloat words 7) (\<lambda>v7.
     andThen (floatAt parseFloat words 8) (\<lambda>v8.
     andThen (floatAt parseFloat words 9) (\<lambda>v9.
       Ok (ies\<lparr>NumberLamps := v0, LumensPerLamp := v1, CandelaMultiplier := v2,
                NumberVerticalAngles := v3, NumberHorizontalAngles := v4,
                PhotometricType := v5, UnitsType := v6, LuminaireWidth := v7,
                LuminaireLength := v8, LuminaireHeight := v9\<rparr>)))))))))))"

text \<open>
  Line 11 (lines 197 to 210 of ies.go): three words are collected, and the source parses
  \<open>words[1]\<close> into the ballast factor, \<open>words[1]\<close> again into the future-use field
  and \<open>words[2]\<close> into the input watts.
\<close>

definition NewIES_line11 :: "(string \<Rightarrow> 'f option) \<Rightarrow> 'f IES \<Rightarrow> string list \<Rightarrow> 'f IES result" where
  "NewIES_line11 parseFloat ies words =
     andThen (floatAt parseFloat words 1) (\<lambda>ballast.
     andThen (floatAt parseFloat words 1) (\<lambda>future.
     andThen (floatAt parseFloat words 2) (\<lambda>watts.
       Ok (ies\<lparr>BallastFactor := ballast, FutureUse := future, InputWatts := watts\<rparr>))))"

text \<open>
  The candela grid: \<open>NumberHorizontalAngles\<close> rows of \<open>NumberVerticalAngles\<close>
  values, read off the flat list in order. A row that runs past the end of the flat list
  is an index panic.
\<close>

fun candelaRows :: "nat \<Rightarrow> nat \<Rightarrow> 'f list \<Rightarrow> 'f list list result" where
  "candelaRows 0 v xs = Ok []"
| "candelaRows (Suc h) v xs =
     (if length xs < v then Panic IndexOutOfRange
      else andThen (candelaRows h v (drop v xs)) (\<lambda>rows. Ok (take v xs # rows)))"

definition NewIES_candela :: "'f IES \<Rightarrow> 'f list \<Rightarrow> 'f IES result" where
  "NewIES_candela ies candelaValues =
     (if NumberHorizontalAngles ies < 0 then Panic MakeSliceLenOutOfRange
      else if 0 < NumberHorizontalAngles ies \<and> NumberVerticalAngles ies < 0
        then Panic MakeSliceLenOutOfRange
      else andThen (candelaRows (nat (NumberHorizontalAngles ies))
                      (nat (NumberVerticalAngles ies)) candelaValues)
             (\<lambda>rows. Ok (ies\<lparr>CandelaValues := rows\<rparr>)))"

definition NewIES_data ::
  "(string \<Rightarrow> int option) \<Rightarrow> (string \<Rightarrow> 'f option) \<Rightarrow> 'f IES \<Rightarrow> Scanner \<Rightarrow> 'f IES result" where
  "NewIES_data atoi parseFloat ies scanner =
     andThen (getWordListFromInput scanner 10 False) (\<lambda>(words10, sc1).
     andThen (NewIES_line10 atoi parseFloat ies words10) (\<lambda>ies1.
     andThen (getWordListFromInput sc1 3 False) (\<lambda>(words11, sc2).
     andThen (NewIES_line11 parseFloat ies1 words11) (\<lambda>ies2.
     andThen (getWordListFromInput sc2 (NumberVerticalAngles ies2) False) (\<lambda>(wordsV, sc3).
     andThen (convertStringSliceToFloat parseFloat wordsV) (\<lambda>vs.
     andThen (getWordListFromInput sc3 (NumberHorizontalAngles ies2) False) (\<lambda>(wordsH, sc4).
     andThen (convertStringSliceToFloat parseFloat wordsH) (\<lambda>hs.
     andThen (getWordListFromInput sc4
                (wrap64 (NumberVerticalAngles ies2 * NumberHorizontalAngles ies2)) True)
       (\<lambda>(wordsC, sc5).
     andThen (convertStringSliceToFloat parseFloat wordsC) (\<lambda>cs.
     andThen (NewIES_candela (ies2\<lparr>VerticalAngles := vs, HorizontalAngles := hs\<rparr>) cs) (\<lambda>ies3.
       case scannerErr sc5 of Some e \<Rightarrow> Err e | None \<Rightarrow> Ok ies3)))))))))))"

text \<open>
  \<open>NewIES\<close> on an opened file, given as the scanner over it. The second component is
  what the call writes to the log.
\<close>

definition NewIES ::
  "(string \<Rightarrow> int option) \<Rightarrow> (string \<Rightarrow> 'f option) \<Rightarrow> Scanner \<Rightarrow> bool
     \<Rightarrow> ('f::zero) IES result \<times> warning list" where
  "NewIES atoi parseFloat scanner strict =
     (case validateStringFromLine scanner 16 strict of
        (r, logged) \<Rightarrow>
          (andThen r (\<lambda>(line, sc0).
           andThen (parseFormatVersion
                      (zeroIES\<lparr>strictParsing := strict, Format := IESFormatUnknown\<rparr>) line)
             (\<lambda>ies0.
           andThen (fetchValidLineFromFile ies0 sc0) (\<lambda>(line1, sc1).
           andThen (NewIES_keywordLoop (ies0\<lparr>Keywords := Mapping.empty\<rparr>) line1 sc1)
             (\<lambda>(ies1, line2, sc2).
           andThen (NewIES_tiltValues atoi parseFloat ies1 line2 sc2) (\<lambda>(ies2, sc3).
             NewIES_data atoi parseFloat ies2 sc3))))),
           logged))"

section \<open>Validate and Upgrade (ies.go)\<close>

definition Validate :: "bool \<Rightarrow> 'f IES \<Rightarrow> bool \<times> string" where
  "Validate strict i =
     (if \<not> ContainsRequiredKeywords i then (False, ''required keywords not present'')
      else if NumberVerticalAngles i \<noteq> int (length (VerticalAngles i))
        then (False, ''VerticalAngles length mismatch'')
      else if NumberHorizontalAngles i \<noteq> int (length (HorizontalAngles i))
        then (False, ''HorizontalAngles length mismatch'')
      else if NumberHorizontalAngles i \<noteq> int (length (CandelaValues i))
        then (False, ''CandelaValues horizontal length mismatch'')
      else if \<not> list_all (\<lambda>c. NumberVerticalAngles i = int (length c)) (CandelaValues i)
        then (False, ''CandelaValues vertical length mismatch'')
      else (True, []))"

text \<open>
  \<open>Upgrade\<close> ranges over the keyword map while it deletes and inserts entries. Go
  fixes neither the order of a map iteration nor whether an entry created during the
  iteration is produced. The first argument of \<open>UpgradeKeywords\<close> is the sequence of
  keys the iteration comes to; a key with no entry at that moment is not produced. The
  run-time guarantees that every entry of the map at the start of the loop that is still
  there when its turn comes is produced, so an iteration order of Go is a list that
  holds at least the keys the map has at the start of the loop.
\<close>

fun UpgradeKeywords :: "string list \<Rightarrow> 'f IES \<Rightarrow> 'f IES" where
  "UpgradeKeywords [] i = i"
| "UpgradeKeywords (keyword # rest) i =
     (case Mapping.lookup (Keywords i) keyword of
        None \<Rightarrow> UpgradeKeywords rest i
      | Some val \<Rightarrow>
          if \<not> isKeywordAllowed i keyword then
            UpgradeKeywords rest
              (if keyword = ''DATE''
               then i\<lparr>Keywords :=
                        Mapping.update ''ISSUEDATE'' val (Mapping.delete keyword (Keywords i))\<rparr>
               else i\<lparr>Keywords :=
                        Mapping.update (CHR ''_'' # keyword) val
                          (Mapping.delete keyword (Keywords i))\<rparr>)
          else UpgradeKeywords rest i)"

definition insertIfMissing ::
  "string \<Rightarrow> string \<Rightarrow> (string, string) mapping \<Rightarrow> (string, string) mapping" where
  "insertIfMissing k v keywords =
     (case Mapping.lookup keywords k of None \<Rightarrow> Mapping.update k v keywords | Some _ \<Rightarrow> keywords)"

text \<open>
  The block of \<open>Upgrade\<close> that fills in the required keywords, run after the format
  has been set to LM-63-2002.
\<close>

definition withPlaceholders :: "'f IES \<Rightarrow> 'f IES" where
  "withPlaceholders i1 =
     (if \<not> ContainsRequiredKeywords i1 then
        i1\<lparr>Keywords :=
             insertIfMissing ''MANUFAC'' ''unknown''
               (insertIfMissing ''ISSUEDATE'' ''unknown''
                 (insertIfMissing ''TESTLAB'' ''unknown''
                   (insertIfMissing ''TEST'' ''unknown'' (Keywords i1))))\<rparr>
      else i1)"

definition Upgrade :: "string list \<Rightarrow> 'f IES \<Rightarrow> 'f IES result" where
  "Upgrade order i =
     (case Validate True i of
        (False, msg) \<Rightarrow> Err (ValidationFailed msg)
      | (True, msg) \<Rightarrow>
          Ok (UpgradeKeywords order (withPlaceholders (i\<lparr>Format := IESFormatLM_63_2002\<rparr>))))"

text \<open>
  The keyword map the specification describes for \<open>Upgrade\<close>, as a lookup on the map
  \<open>m\<close> that holds the placeholders already: ISSUEDATE takes the value of a DATE
  keyword; an underscore-prefixed name takes the value of the keyword it prefixes when
  that keyword is in the map and is not permitted; every other permitted keyword keeps
  its value; a keyword that is not permitted has no entry.
\<close>

definition upgradedLookup :: "'f IES \<Rightarrow> (string, string) mapping \<Rightarrow> string \<Rightarrow> string option" where
  "upgradedLookup i m x =
     (if x = ''ISSUEDATE'' \<and> Mapping.lookup m ''DATE'' \<noteq> None then Mapping.lookup m ''DATE''
      else if x \<noteq> [] \<and> hd x = CHR ''_'' \<and> tl x \<noteq> ''DATE''
              \<and> Mapping.lookup m (tl x) \<noteq> None \<and> \<not> isKeywordAllowed i (tl x)
        then Mapping.lookup m (tl x)
      else if isKeywordAllowed i x then Mapping.lookup m x
      else None)"

text \<open>
  Two models for the examples: one as the reader builds it from a 1995 file with the
  keywords TEST, BLOCK and DATE, and one built by a caller, with a keyword of 21
  characters.
\<close>

definition parsedModel95 :: "real IES" where
  "parsedModel95 =
     zeroIES\<lparr>Format := IESFormatLM_63_1995,
             Keywords := Mapping.update ''DATE'' ''2001'' (Mapping.update ''BLOCK'' ''b''
                           (Mapping.update ''TEST'' ''t'' Mapping.empty))\<rparr>"

definition callerModel95 :: "real IES" where
  "callerModel95 =
     zeroIES\<lparr>Format := IESFormatLM_63_1995,
             Keywords := Mapping.update ''LUMINAIRE_DESCRIPTION'' ''x'' Mapping.empty\<rparr>"

text \<open>A scanner over the given lines, before the first \<open>Scan\<close>.\<close>

definition newScanner :: "string list \<Rightarrow> Scanner" where
  "newScanner ls = \<lparr> scanLines = ls, scanText = [], scanReadError = None, scanStopped = False \<rparr>"

section \<open>Symmetry bounds of the EULUMDAT reader\<close>

lemma wrap64_id: "isGoInt x \<Longrightarrow> wrap64 x = x"
  unfolding wrap64_def isGoInt_def
  by (subst mod_pos_pos_trivial) linarith+

lemma wrap64_hi:
  assumes "9223372036854775808 \<le> x" "x < 27670116110564327424"
  shows "wrap64 x = x - 18446744073709551616"
proof -
  define y where "y = x - 9223372036854775808"
  have y: "0 \<le> y" "y < 18446744073709551616"
    using assms by (simp_all add: y_def)
  have "x + 9223372036854775808 = y + 1 * 18446744073709551616"
    by (simp add: y_def)
  then have "(x + 9223372036854775808) mod 18446744073709551616
      = (y + 1 * 18446744073709551616) mod 18446744073709551616"
    by (rule arg_cong)
  also have "\<dots> = y mod 18446744073709551616"
    by (rule mod_mult_self1)
  also have "\<dots> = y"
    using y by (rule mod_pos_pos_trivial)
  finally show ?thesis
    unfolding wrap64_def y_def by linarith
qed

lemma goDiv_pos: "0 \<le> a \<Longrightarrow> 0 < b \<Longrightarrow> goDiv a b = a div b"
  by (simp add: goDiv_def)

lemma wrap64_half:
  assumes "0 < m" "isGoInt m"
  shows "wrap64 (goDiv m 2 + 1) = m div 2 + 1"
proof -
  have "0 \<le> m div 2" "m div 2 < 4611686018427387904"
    using assms unfolding isGoInt_def by linarith+
  then have "wrap64 (m div 2 + 1) = m div 2 + 1"
    by (intro wrap64_id) (simp add: isGoInt_def)
  then show ?thesis
    using assms by (simp add: goDiv_pos)
qed

lemma wrap64_quarter:
  assumes "0 < m" "isGoInt m"
  shows "wrap64 (goDiv m 4 + 1) = m div 4 + 1"
proof -
  have "0 \<le> m div 4" "m div 4 < 2305843009213693952"
    using assms unfolding isGoInt_def by linarith+
  then have "wrap64 (m div 4 + 1) = m div 4 + 1"
    by (intro wrap64_id) (simp add: isGoInt_def)
  then show ?thesis
    using assms by (simp add: goDiv_pos)
qed

text \<open>
  Symmetry indicator 3, where \<open>3 * Mc\<close> may leave the 64-bit range: the lower bound
  then wraps, but the distance between the bounds is still \<open>Mc / 2\<close>.
\<close>

lemma symmetry3_bounds:
  assumes "0 < m" "isGoInt m"
  defines "m1 \<equiv> wrap64 (goDiv (wrap64 (3 * m)) 4 + 1)"
  defines "m2 \<equiv> wrap64 (m1 + goDiv m 2)"
  shows "m1 \<le> m2 \<and> m2 - m1 + 1 = wrap64 (goDiv m 2 + 1)"
proof -
  have mb: "m < 9223372036854775808"
    using assms by (simp add: isGoInt_def)
  have h: "goDiv m 2 = m div 2"
    using assms by (simp add: goDiv_pos)
  have hb: "0 \<le> m div 2" "m div 2 < 4611686018427387904"
    using assms mb by linarith+
  have r: "wrap64 (goDiv m 2 + 1) = m div 2 + 1"
    using assms(1,2) by (rule wrap64_half)
  show ?thesis
  proof (cases "3 * m < 9223372036854775808")
    case True
    then have w: "wrap64 (3 * m) = 3 * m"
      using assms by (intro wrap64_id) (simp add: isGoInt_def)
    have d: "goDiv (3 * m) 4 = 3 * m div 4"
      using assms by (simp add: goDiv_pos)
    have db: "0 \<le> 3 * m div 4" "3 * m div 4 < 2305843009213693952"
      using True assms by linarith+
    have e1: "m1 = 3 * m div 4 + 1"
      unfolding m1_def w d using db by (intro wrap64_id) (simp add: isGoInt_def)
    have e2: "m2 = m1 + m div 2"
      unfolding m2_def h using db hb e1 by (intro wrap64_id) (simp add: isGoInt_def)
    show ?thesis
      unfolding r using e2 hb by linarith
  next
    case False
    then have w: "wrap64 (3 * m) = 3 * m - 18446744073709551616"
      using assms mb by (intro wrap64_hi) simp_all
    let ?k = "3 * m - 18446744073709551616"
    have kb: "- 9223372036854775808 \<le> ?k" "?k < 9223372036854775808"
      using False mb by linarith+
    have qb: "- 2305843009213693952 \<le> goDiv ?k 4" "goDiv ?k 4 < 2305843009213693952"
      using kb unfolding goDiv_def by (auto split: if_splits)
    have e1: "m1 = goDiv ?k 4 + 1"
      unfolding m1_def w using qb by (intro wrap64_id) (simp add: isGoInt_def)
    have e2: "m2 = m1 + m div 2"
      unfolding m2_def h using qb hb e1 by (intro wrap64_id) (simp add: isGoInt_def)
    show ?thesis
      unfolding r using e2 hb by linarith
  qed
qed

text \<open>
  C3. For every symmetry indicator in 0..4 and every positive plane count Mc (a Go
  integer), the bounds and the reshape count that \<open>calcMc1andMc2\<close> and \<open>calcMc\<close>
  compute satisfy mc2 \<ge> mc1 and mc2 - mc1 + 1 = mc.
\<close>

theorem symmetry_plane_bounds:
  assumes "SymmetryIndicator e \<in> {0, 1, 2, 3, 4}"
    and "0 < NumberMcCPlanes e"
    and "isGoInt (NumberMcCPlanes e)"
  shows "mc1 (calcMc1andMc2 e) \<le> mc2 (calcMc1andMc2 e)
         \<and> mc2 (calcMc1andMc2 e) - mc1 (calcMc1andMc2 e) + 1 = mc (calcMc e)"
proof -
  let ?m = "NumberMcCPlanes e"
  have half: "wrap64 (goDiv ?m 2 + 1) = ?m div 2 + 1"
    using assms(2,3) by (rule wrap64_half)
  have quarter: "wrap64 (goDiv ?m 4 + 1) = ?m div 4 + 1"
    using assms(2,3) by (rule wrap64_quarter)
  have three: "wrap64 (goDiv (wrap64 (3 * ?m)) 4 + 1)
        \<le> wrap64 (wrap64 (goDiv (wrap64 (3 * ?m)) 4 + 1) + goDiv ?m 2)
      \<and> wrap64 (wrap64 (goDiv (wrap64 (3 * ?m)) 4 + 1) + goDiv ?m 2)
          - wrap64 (goDiv (wrap64 (3 * ?m)) 4 + 1) + 1 = wrap64 (goDiv ?m 2 + 1)"
    using assms(2,3) by (rule symmetry3_bounds)
  have nonneg: "0 \<le> ?m div 2" "0 \<le> ?m div 4"
    using assms(2) by linarith+
  consider "SymmetryIndicator e = 0" | "SymmetryIndicator e = 1" | "SymmetryIndicator e = 2"
    | "SymmetryIndicator e = 3" | "SymmetryIndicator e = 4"
    using assms(1) by blast
  then show ?thesis
  proof cases
    case 1
    then show ?thesis using assms(2) by (simp add: calcMc1andMc2_def calcMc_def)
  next
    case 2
    then show ?thesis by (simp add: calcMc1andMc2_def calcMc_def)
  next
    case 3
    then show ?thesis using nonneg by (simp add: calcMc1andMc2_def calcMc_def half)
  next
    case 4
    then show ?thesis using three by (simp add: calcMc1andMc2_def calcMc_def Let_def)
  next
    case 5
    then show ?thesis using nonneg by (simp add: calcMc1andMc2_def calcMc_def quarter)
  qed
qed

theorem symmetry_plane_bounds_witness:
  "SymmetryIndicator ((zeroEulumdat :: real Eulumdat)\<lparr>SymmetryIndicator := 3, NumberMcCPlanes := 24\<rparr>)
     \<in> {0, 1, 2, 3, 4}
   \<and> 0 < NumberMcCPlanes ((zeroEulumdat :: real Eulumdat)\<lparr>SymmetryIndicator := 3, NumberMcCPlanes := 24\<rparr>)
   \<and> isGoInt (NumberMcCPlanes ((zeroEulumdat :: real Eulumdat)\<lparr>SymmetryIndicator := 3, NumberMcCPlanes := 24\<rparr>))
   \<and> mc1 (calcMc1andMc2 ((zeroEulumdat :: real Eulumdat)\<lparr>SymmetryIndicator := 3, NumberMcCPlanes := 24\<rparr>))
       \<le> mc2 (calcMc1andMc2 ((zeroEulumdat :: real Eulumdat)\<lparr>SymmetryIndicator := 3, NumberMcCPlanes := 24\<rparr>))
   \<and> mc2 (calcMc1andMc2 ((zeroEulumdat :: real Eulumdat)\<lparr>SymmetryIndicator := 3, NumberMcCPlanes := 24\<rparr>))
       - mc1 (calcMc1andMc2 ((zeroEulumdat :: real Eulumdat)\<lparr>SymmetryIndicator := 3, NumberMcCPlanes := 24\<rparr>)) + 1
     = mc (calcMc ((zeroEulumdat :: real Eulumdat)\<lparr>SymmetryIndicator := 3, NumberMcCPlanes := 24\<rparr>))"
proof -
  let ?e = "(zeroEulumdat :: real Eulumdat)\<lparr>SymmetryIndicator := 3, NumberMcCPlanes := 24\<rparr>"
  have h1: "SymmetryIndicator ?e \<in> {0, 1, 2, 3, 4}" by simp
  have h2: "0 < NumberMcCPlanes ?e" by simp
  have h3: "isGoInt (NumberMcCPlanes ?e)" by (simp add: isGoInt_def)
  from symmetry_plane_bounds [OF h1 h2 h3] h1 h2 h3 show ?thesis by blast
qed

section \<open>Conversion between the two models\<close>

text \<open>
  C10. \<open>ConvertEulumdatToIES\<close> reads element 0 of the lamp arrays without looking at the
  number of lamp sets: whenever one of the four arrays it reads is empty (in particular
  when all lamp arrays are empty) the call ends in an index-out-of-range panic, and for
  no input at all does it return an error.
\<close>

theorem convert_empty_lamps_panics:
  assumes "TypeLamps e = [] \<or> NumberLampsE e = [] \<or> TotalLuminousFluxLamps e = []
           \<or> BallastWatts e = []"
  shows "ConvertEulumdatToIES e = Panic IndexOutOfRange
         \<and> ConvertEulumdatToIES e \<noteq> Err err"
  using assms
  by (auto simp: ConvertEulumdatToIES_def index0_def split: list.splits)

theorem convert_empty_lamps_panics_witness:
  "(TypeLamps (zeroEulumdat :: real Eulumdat) = []
      \<or> NumberLampsE (zeroEulumdat :: real Eulumdat) = []
      \<or> TotalLuminousFluxLamps (zeroEulumdat :: real Eulumdat) = []
      \<or> BallastWatts (zeroEulumdat :: real Eulumdat) = [])
   \<and> ConvertEulumdatToIES (zeroEulumdat :: real Eulumdat) = Panic IndexOutOfRange
   \<and> ConvertEulumdatToIES (zeroEulumdat :: real Eulumdat) \<noteq> Err UnexpectedEOF"
proof -
  have h: "TypeLamps (zeroEulumdat :: real Eulumdat) = []
      \<or> NumberLampsE (zeroEulumdat :: real Eulumdat) = []
      \<or> TotalLuminousFluxLamps (zeroEulumdat :: real Eulumdat) = []
      \<or> BallastWatts (zeroEulumdat :: real Eulumdat) = []"
    by (simp add: zeroEulumdat_def)
  from convert_empty_lamps_panics [OF h, of UnexpectedEOF] h show ?thesis by blast
qed

text \<open>
  With four non-empty arrays the conversion returns a model: the panic is the only way
  it fails.
\<close>

lemma convert_returns_when_lamps_present:
  assumes "TypeLamps e \<noteq> []" "NumberLampsE e \<noteq> []" "TotalLuminousFluxLamps e \<noteq> []"
    "BallastWatts e \<noteq> []"
  shows "\<exists>ies. ConvertEulumdatToIES e = Ok ies"
  using assms
  by (auto simp: ConvertEulumdatToIES_def index0_def split: list.splits)

text \<open>
  C2 as stated asks the reverse conversion to report a "not supported" error. The source
  returns a nil error: at the zero model the error component is \<open>None\<close>.
\<close>

theorem reverse_conversion_reports_no_error:
  "snd (ConvertIESToEulumdat (zeroIES :: real IES)) = None"
  by (simp add: ConvertIESToEulumdat_def)

text \<open>
  C2, amended. For every IES model \<open>ConvertIESToEulumdat\<close> returns neither a model nor
  an error: it never produces an empty or partial EULUMDAT model, and it reports nothing.
\<close>

theorem reverse_conversion_returns_nil_nil:
  "ConvertIESToEulumdat ies = (None, None)"
  by (simp add: ConvertIESToEulumdat_def)

section \<open>Line 11 of the IES reader\<close>

text \<open>
  C1 asks that the ballast factor be read from the first of the three words and the
  future-use field from the second. In the source both are parsed from the second word
  and the first word is never read: whatever the first word is, the result is the model
  whose ballast factor and future-use field are both the value of the second word.
\<close>

theorem line11_ballast_from_second_word:
  "NewIES_line11 parseFloat ies [w0, w1, w2]
     = (case parseFloat w1 of
          None \<Rightarrow> Err (ParseFloatError w1)
        | Some b \<Rightarrow>
            (case parseFloat w2 of
               None \<Rightarrow> Err (ParseFloatError w2)
             | Some w \<Rightarrow> Ok (ies\<lparr>BallastFactor := b, FutureUse := b, InputWatts := w\<rparr>)))"
  by (simp add: NewIES_line11_def floatAt_def goIndex_def andThen_def split: option.splits)

text \<open>
  The same at the line \<open>0.5 1.0 50\<close>, with every word standing for its own value: the
  ballast factor comes out as the second word, not as \<open>0.5\<close>.
\<close>

lemma line11_example:
  "NewIES_line11 Some ies [''0.5'', ''1.0'', ''50'']
     = Ok (ies\<lparr>BallastFactor := ''1.0'', FutureUse := ''1.0'', InputWatts := ''50''\<rparr>)"
  by (simp add: NewIES_line11_def floatAt_def goIndex_def andThen_def)

section \<open>Word collection\<close>

text \<open>
  C9 asks that \<open>getWordListFromInput\<close> return the requested number of words or an error
  for every input. With three words requested and the current line holding four, the
  fourth word is written to index 3 of a list of length 3: the call panics.
\<close>

theorem word_list_overrun_panics:
  "getWordListFromInput ((newScanner [''5 6''])\<lparr>scanText := ''1 2 3 4''\<rparr>) 3 False
     = Panic IndexOutOfRange"
  by (simp add: getWordListFromInput_def newScanner_def TrimSpace_def isSpace_def
      numeral_3_eq_3)

text \<open>A negative count panics as well, in \<open>make\<close>.\<close>

lemma word_list_negative_size_panics:
  "sz < 0 \<Longrightarrow> getWordListFromInput scanner sz lastScan = Panic MakeSliceLenOutOfRange"
  by (simp add: getWordListFromInput_def)

section \<open>Line-length budget\<close>

lemma validateStringFromLine_strict:
  assumes "scanLines scanner = l # ls" "int (length (TrimSpace l)) > maxLength"
  shows "validateStringFromLine scanner maxLength True = (Err (LineExceedsMaximum (TrimSpace l)), [])"
  using assms by (simp add: validateStringFromLine_def Scan_def Let_def)

lemma validateStringFromLine_lenient:
  assumes "scanLines scanner = l # ls" "int (length (TrimSpace l)) > maxLength"
  shows "validateStringFromLine scanner maxLength False
           = (Ok (TrimSpace l, scanner\<lparr>scanLines := ls, scanText := l\<rparr>),
              [LineExceedsMaximumWarning (int (length (TrimSpace l))) maxLength (TrimSpace l)])"
  using assms by (simp add: validateStringFromLine_def Scan_def Let_def)

lemma fetchValidLineFromFile_strict:
  assumes "scanLines scanner = l # ls" "int (length l) > maxDataLineLength i" "strictParsing i"
  shows "fetchValidLineFromFile i scanner = Err (LineExceedsMaximum l)"
  using assms by (simp add: fetchValidLineFromFile_def Scan_def)

lemma fetchValidLineFromFile_lenient:
  assumes "scanLines scanner = l # ls" "\<not> strictParsing i"
  shows "fetchValidLineFromFile i scanner = Ok (l, scanner\<lparr>scanLines := ls, scanText := l\<rparr>)"
  using assms by (simp add: fetchValidLineFromFile_def Scan_def)

lemma validateStringFromLine_format_line_quiet:
  "snd (validateStringFromLine (newScanner (''IESNA:LM-63-1995'' # rest)) 16 strict) = []"
  by (simp add: validateStringFromLine_def Scan_def newScanner_def TrimSpace_def isSpace_def
      Let_def)

lemma NewIES_log:
  "snd (NewIES atoi parseFloat scanner strict) = snd (validateStringFromLine scanner 16 strict)"
  by (simp add: NewIES_def split: prod.splits)

text \<open>
  C7 asks that a line one character over the budget be accepted with a warning when the
  parse is lenient. The only call to the log is in \<open>validateStringFromLine\<close>, which
  reads the format line; every later line is read by \<open>fetchValidLineFromFile\<close> or by
  the scan inside \<open>getWordListFromInput\<close>. A keyword line of 131 characters under the
  1995 revision (budget 130) is accepted by a lenient parse, and the whole parse of any
  1995 document writes nothing to the log.
\<close>

theorem lenient_overlong_line_not_warned:
  "fetchValidLineFromFile
       ((zeroIES :: real IES)\<lparr>Format := IESFormatLM_63_1995, strictParsing := False\<rparr>)
       (newScanner [''[TEST] '' @ replicate 124 (CHR ''x'')])
     = Ok (''[TEST] '' @ replicate 124 (CHR ''x''),
           (newScanner [])\<lparr>scanText := ''[TEST] '' @ replicate 124 (CHR ''x'')\<rparr>)
   \<and> int (length (''[TEST] '' @ replicate 124 (CHR ''x'')))
       = maxDataLineLength ((zeroIES :: real IES)\<lparr>Format := IESFormatLM_63_1995\<rparr>) + 1
   \<and> snd (NewIES atoi parseFloat
            (newScanner (''IESNA:LM-63-1995'' # (''[TEST] '' @ replicate 124 (CHR ''x'')) # rest))
            False :: real IES result \<times> warning list) = []"
proof -
  have a: "fetchValidLineFromFile
       ((zeroIES :: real IES)\<lparr>Format := IESFormatLM_63_1995, strictParsing := False\<rparr>)
       (newScanner [''[TEST] '' @ replicate 124 (CHR ''x'')])
     = Ok (''[TEST] '' @ replicate 124 (CHR ''x''),
           (newScanner [])\<lparr>scanText := ''[TEST] '' @ replicate 124 (CHR ''x'')\<rparr>)"
    by (simp add: fetchValidLineFromFile_def Scan_def newScanner_def)
  have b: "int (length (''[TEST] '' @ replicate 124 (CHR ''x'')))
       = maxDataLineLength ((zeroIES :: real IES)\<lparr>Format := IESFormatLM_63_1995\<rparr>) + 1"
    by (simp add: maxDataLineLength_def)
  have c: "snd (NewIES atoi parseFloat
            (newScanner (''IESNA:LM-63-1995'' # (''[TEST] '' @ replicate 124 (CHR ''x'')) # rest))
            False :: real IES result \<times> warning list) = []"
    by (simp only: NewIES_log validateStringFromLine_format_line_quiet)
  from a b c show ?thesis by blast
qed

text \<open>
  The lines scanned inside \<open>getWordListFromInput\<close> are compared with no budget at all,
  strict or not: the function does not take the flag.
\<close>

lemma word_list_scan_ignores_length:
  "getWordListFromInput ((newScanner [l])\<lparr>scanText := ''1 2''\<rparr>) 2 False
     = Ok ([''1'', ''2''], (newScanner [])\<lparr>scanText := l\<rparr>)"
  by (simp add: getWordListFromInput_def newScanner_def TrimSpace_def isSpace_def Scan_def
      numeral_2_eq_2)

section \<open>Keyword lines\<close>

lemma isKeywordAllowed_MORE: "isKeywordAllowed i ''MORE''"
  by (simp add: isKeywordAllowed_def keywordAllowedByIesna91_def keywordAllowedByIesna95_def
      keywordAllowedByIesna02_def)

lemma tilt_line_is_no_keyword_line: "isTiltLine line \<Longrightarrow> \<not> isKeywordLine line"
  by (cases line) (auto simp: isTiltLine_def isKeywordLine_def tiltRegex_def keywordRegex_def)

lemma parseTiltLine_error: "parseTiltLine i line \<noteq> Err RequiredKeywordsMissing"
  by (simp add: parseTiltLine_def split: option.splits)

lemma fetchValidLineFromFile_error:
  "fetchValidLineFromFile i scanner \<noteq> Err RequiredKeywordsMissing"
  by (auto simp: fetchValidLineFromFile_def Scan_def Let_def scanFailure_def scannerErr_def
      split: list.splits option.splits)

text \<open>
  C4. When the keyword loop of \<open>NewIES\<close> comes to a TILT line under the 2002 revision
  while one of TEST, TESTLAB, ISSUEDATE, MANUFAC is absent, the parse fails with
  "required keywords are missing", whatever the tilt value is: \<open>parseTiltLine\<close> is not
  reached. Under the 1995 revision the same keywords pass the required-keyword check, and
  the loop does not fail with that error.
\<close>

theorem tilt_line_needs_required_keywords:
  assumes "Format ies = IESFormatLM_63_2002"
    and "isTiltLine line"
    and "Mapping.lookup (Keywords ies) ''TEST'' = None
         \<or> Mapping.lookup (Keywords ies) ''TESTLAB'' = None
         \<or> Mapping.lookup (Keywords ies) ''ISSUEDATE'' = None
         \<or> Mapping.lookup (Keywords ies) ''MANUFAC'' = None"
  shows "NewIES_keywordLoop ies line scanner = Err RequiredKeywordsMissing
         \<and> ContainsRequiredKeywords (ies\<lparr>Format := IESFormatLM_63_1995\<rparr>)
         \<and> NewIES_keywordLoop (ies\<lparr>Format := IESFormatLM_63_1995\<rparr>) line scanner
             \<noteq> Err RequiredKeywordsMissing"
proof -
  have nk: "\<not> isKeywordLine line"
    using assms(2) by (rule tilt_line_is_no_keyword_line)
  have missing: "\<not> ContainsRequiredKeywords ies"
    using assms(1,3) by (auto simp: ContainsRequiredKeywords_def checkIesna02RequiredKeywords_def)
  have a: "NewIES_keywordLoop ies line scanner = Err RequiredKeywordsMissing"
    by (subst NewIES_keywordLoop.simps) (simp add: nk assms(2) missing)
  have b: "ContainsRequiredKeywords (ies\<lparr>Format := IESFormatLM_63_1995\<rparr>)"
    by (simp add: ContainsRequiredKeywords_def)
  have c: "NewIES_keywordLoop (ies\<lparr>Format := IESFormatLM_63_1995\<rparr>) line scanner
             \<noteq> Err RequiredKeywordsMissing"
    using parseTiltLine_error [of "ies\<lparr>Format := IESFormatLM_63_1995\<rparr>" line]
      fetchValidLineFromFile_error
    by (subst NewIES_keywordLoop.simps)
       (auto simp: nk assms(2) b split: result.splits)
  from a b c show ?thesis by blast
qed

theorem tilt_line_needs_required_keywords_witness:
  "Format ((zeroIES :: real IES)\<lparr>Format := IESFormatLM_63_2002,
       Keywords := Mapping.update ''TEST'' ''abc'' Mapping.empty\<rparr>) = IESFormatLM_63_2002
   \<and> isTiltLine ''TILT=lamp.tlt''
   \<and> Mapping.lookup (Keywords ((zeroIES :: real IES)\<lparr>Format := IESFormatLM_63_2002,
         Keywords := Mapping.update ''TEST'' ''abc'' Mapping.empty\<rparr>)) ''TESTLAB'' = None
   \<and> NewIES_keywordLoop ((zeroIES :: real IES)\<lparr>Format := IESFormatLM_63_2002,
         Keywords := Mapping.update ''TEST'' ''abc'' Mapping.empty\<rparr>) ''TILT=lamp.tlt''
         (newScanner [''1 2 3'']) = Err RequiredKeywordsMissing
   \<and> NewIES_keywordLoop ((zeroIES :: real IES)\<lparr>Format := IESFormatLM_63_2002,
         Keywords := Mapping.update ''TEST'' ''abc'' Mapping.empty\<rparr>
           \<lparr>Format := IESFormatLM_63_1995\<rparr>) ''TILT=lamp.tlt''
         (newScanner [''1 2 3'']) \<noteq> Err RequiredKeywordsMissing"
proof -
  let ?ies = "(zeroIES :: real IES)\<lparr>Format := IESFormatLM_63_2002,
       Keywords := Mapping.update ''TEST'' ''abc'' Mapping.empty\<rparr>"
  have h1: "Format ?ies = IESFormatLM_63_2002" by simp
  have h2: "isTiltLine ''TILT=lamp.tlt''"
    by (simp add: isTiltLine_def tiltRegex_def restGroup_def isReSpace_def)
  have h3: "Mapping.lookup (Keywords ?ies) ''TESTLAB'' = None" by simp
  have h3': "Mapping.lookup (Keywords ?ies) ''TEST'' = None
         \<or> Mapping.lookup (Keywords ?ies) ''TESTLAB'' = None
         \<or> Mapping.lookup (Keywords ?ies) ''ISSUEDATE'' = None
         \<or> Mapping.lookup (Keywords ?ies) ''MANUFAC'' = None"
    using h3 by blast
  from tilt_line_needs_required_keywords [OF h1 h2 h3', of "newScanner [''1 2 3'']"] h1 h2 h3
  show ?thesis by blast
qed

text \<open>
  C5. In every state reached by setting TEST to \<open>abc\<close> with the line \<open>[TEST] abc\<close>, a
  MORE line with value \<open>v\<close> is accepted and turns the value of TEST into \<open>abc\<close>, a
  newline and \<open>v\<close>; the set of keys of the map stays as it was (no key MORE appears).
  In a state with no keyword yet (empty map or no last keyword) a MORE line is the error
  "keyword MORE occured before any other keyword".
\<close>

theorem more_continues_last_keyword:
  assumes "parseKeywordLine ies0 ''[TEST] abc'' = Ok ies"
    and "keywordRegex line = Some (''MORE'', v)"
  shows "parseKeywordLine ies line
           = Ok (ies\<lparr>Keywords := Mapping.update ''TEST'' (''abc'' @ CHR 0x0A # v) (Keywords ies)\<rparr>)
         \<and> Mapping.lookup (Keywords ies) ''TEST'' = Some ''abc''
         \<and> Mapping.keys (Mapping.update ''TEST'' (''abc'' @ CHR 0x0A # v) (Keywords ies))
             = Mapping.keys (Keywords ies)
         \<and> (Mapping.is_empty (Keywords j) \<or> lastKeyword j = []
              \<longrightarrow> parseKeywordLine j line = Err MoreBeforeKeyword)"
proof -
  have m: "keywordRegex ''[TEST] abc'' = Some (''TEST'', ''abc'')"
    by (simp add: keywordRegex_def isWordChar_def restGroup_def isReSpace_def)
  have st: "lastKeyword ies = ''TEST''" "Mapping.lookup (Keywords ies) ''TEST'' = Some ''abc''"
    "\<not> Mapping.is_empty (Keywords ies)"
    using assms(1)
    by (auto simp: parseKeywordLine_def m checkKeywordBlock_def split: if_splits)
  have a: "parseKeywordLine ies line
           = Ok (ies\<lparr>Keywords := Mapping.update ''TEST'' (''abc'' @ CHR 0x0A # v) (Keywords ies)\<rparr>)"
    by (simp add: parseKeywordLine_def assms(2) isKeywordAllowed_MORE checkKeywordBlock_def st
        appendToKeyword_def)
  have k: "Mapping.keys (Mapping.update ''TEST'' (''abc'' @ CHR 0x0A # v) (Keywords ies))
             = Mapping.keys (Keywords ies)"
  proof -
    have "''TEST'' \<in> Mapping.keys (Keywords ies)"
      using st(2) by (simp add: keys_dom_lookup domI)
    then show ?thesis by auto
  qed
  have e: "Mapping.is_empty (Keywords j) \<or> lastKeyword j = []
              \<longrightarrow> parseKeywordLine j line = Err MoreBeforeKeyword"
    by (simp add: parseKeywordLine_def assms(2) isKeywordAllowed_MORE checkKeywordBlock_def)
  from a st(2) k e show ?thesis by blast
qed

theorem more_continues_last_keyword_witness:
  "parseKeywordLine ((zeroIES :: real IES)\<lparr>Format := IESFormatLM_63_2002\<rparr>) ''[TEST] abc''
     = Ok ((zeroIES :: real IES)\<lparr>Format := IESFormatLM_63_2002,
             Keywords := Mapping.update ''TEST'' ''abc'' Mapping.empty, lastKeyword := ''TEST''\<rparr>)
   \<and> keywordRegex ''[MORE] def'' = Some (''MORE'', ''def'')
   \<and> parseKeywordLine ((zeroIES :: real IES)\<lparr>Format := IESFormatLM_63_2002,
             Keywords := Mapping.update ''TEST'' ''abc'' Mapping.empty, lastKeyword := ''TEST''\<rparr>)
         ''[MORE] def''
       = Ok ((zeroIES :: real IES)\<lparr>Format := IESFormatLM_63_2002,
             Keywords := Mapping.update ''TEST'' ''abc'' Mapping.empty, lastKeyword := ''TEST''\<rparr>
             \<lparr>Keywords := Mapping.update ''TEST'' (''abc'' @ CHR 0x0A # ''def'')
                (Keywords ((zeroIES :: real IES)\<lparr>Format := IESFormatLM_63_2002,
                   Keywords := Mapping.update ''TEST'' ''abc'' Mapping.empty,
                   lastKeyword := ''TEST''\<rparr>))\<rparr>)
   \<and> parseKeywordLine (zeroIES :: real IES) ''[MORE] def'' = Err MoreBeforeKeyword"
proof -
  let ?start = "(zeroIES :: real IES)\<lparr>Format := IESFormatLM_63_2002\<rparr>"
  let ?ies = "(zeroIES :: real IES)\<lparr>Format := IESFormatLM_63_2002,
             Keywords := Mapping.update ''TEST'' ''abc'' Mapping.empty, lastKeyword := ''TEST''\<rparr>"
  have m: "keywordRegex ''[TEST] abc'' = Some (''TEST'', ''abc'')"
    by (simp add: keywordRegex_def isWordChar_def restGroup_def isReSpace_def)
  have h1: "parseKeywordLine ?start ''[TEST] abc'' = Ok ?ies"
    by (simp add: parseKeywordLine_def m isKeywordAllowed_def keywordAllowedByIesna02_def
        checkKeywordBlock_def zeroIES_def)
  have h2: "keywordRegex ''[MORE] def'' = Some (''MORE'', ''def'')"
    by (simp add: keywordRegex_def isWordChar_def restGroup_def isReSpace_def)
  have e: "Mapping.is_empty (Keywords (zeroIES :: real IES)) \<or> lastKeyword (zeroIES :: real IES) = []"
    by (simp add: zeroIES_def)
  from more_continues_last_keyword [OF h1 h2, of "zeroIES :: real IES"] e h1 h2
  show ?thesis by blast
qed

section \<open>BLOCK and ENDBLOCK\<close>

lemma isKeywordAllowed_state [simp]:
  "isKeywordAllowed (i\<lparr>insideBlock := b\<rparr>) k = isKeywordAllowed i k"
  "isKeywordAllowed (i\<lparr>Keywords := m\<rparr>) k = isKeywordAllowed i k"
  "isKeywordAllowed (i\<lparr>lastKeyword := l\<rparr>) k = isKeywordAllowed i k"
  by (simp_all add: isKeywordAllowed_def)




section \<open>Upgrade\<close>

lemma lookup_delete':
  "Mapping.lookup (Mapping.delete k m) k' = (if k = k' then None else Mapping.lookup m k')"
  by simp

lemma allowed02_custom:
  "Format i = IESFormatLM_63_2002 \<Longrightarrow> isKeywordAllowed i (CHR ''_'' # k) = (length k < 18)"
  by (auto simp: isKeywordAllowed_def)

lemma allowed02_ISSUEDATE:
  "Format i = IESFormatLM_63_2002 \<Longrightarrow> isKeywordAllowed i ''ISSUEDATE''"
  by (simp add: isKeywordAllowed_def keywordAllowedByIesna02_def)

lemma allowed02_DATE:
  "Format i = IESFormatLM_63_2002 \<Longrightarrow> \<not> isKeywordAllowed i ''DATE''"
  by (simp add: isKeywordAllowed_def keywordAllowedByIesna02_def)

lemma allowed02_no_underscore:
  assumes "Format i = IESFormatLM_63_2002" "\<not> isKeywordAllowed i k" "length k < 18"
  shows "k = [] \<or> hd k \<noteq> CHR ''_''"
  using assms by (auto simp: isKeywordAllowed_def)

lemma step_generic:
  assumes F: "Format i = IESFormatLM_63_2002"
    and k: "Mapping.lookup m k = Some v" "\<not> isKeywordAllowed i k" "k \<noteq> ''DATE''" "length k < 18"
  shows "upgradedLookup i (Mapping.update (CHR ''_'' # k) v (Mapping.delete k m)) x = upgradedLookup i m x"
proof -
  let ?m' = "Mapping.update (CHR ''_'' # k) v (Mapping.delete k m)"
  have nu: "k = [] \<or> hd k \<noteq> CHR ''_''"
    using F k(2,4) by (rule allowed02_no_underscore)
  have ak: "isKeywordAllowed i (CHR ''_'' # k)"
    using F k(4) by (simp add: allowed02_custom)
  have L: "Mapping.lookup ?m' y
      = (if y = CHR ''_'' # k then Some v else if y = k then None else Mapping.lookup m y)" for y
    by (auto simp: lookup_update' lookup_delete')
  have kI: "k \<noteq> ''ISSUEDATE''"
    using F k(2) allowed02_ISSUEDATE by blast
  show ?thesis
  proof (cases "x = ''ISSUEDATE''")
    case True
    then show ?thesis
      using kI k(3) by (simp add: upgradedLookup_def L)
  next
    case notI: False
    show ?thesis
    proof (cases "x \<noteq> [] \<and> hd x = CHR ''_''")
      case True
      then obtain t where x: "x = CHR ''_'' # t"
        by (cases x) auto
      have tk: "t = k \<Longrightarrow> ?thesis"
        using k ak nu by (auto simp: upgradedLookup_def L x)
      have tuk: "t = CHR ''_'' # k \<Longrightarrow> ?thesis"
        using k ak nu by (auto simp: upgradedLookup_def L x)
      have other: "t \<noteq> k \<Longrightarrow> t \<noteq> CHR ''_'' # k \<Longrightarrow> ?thesis"
        using k ak nu by (auto simp: upgradedLookup_def L x)
      from tk tuk other show ?thesis by blast
    next
      case False
      then have "x \<noteq> CHR ''_'' # k"
        by auto
      then show ?thesis
        using False notI k by (auto simp: upgradedLookup_def L)
    qed
  qed
qed

lemma step_date:
  assumes F: "Format i = IESFormatLM_63_2002"
    and k: "Mapping.lookup m ''DATE'' = Some v"
  shows "upgradedLookup i (Mapping.update ''ISSUEDATE'' v (Mapping.delete ''DATE'' m)) x
           = upgradedLookup i m x"
proof -
  let ?m' = "Mapping.update ''ISSUEDATE'' v (Mapping.delete ''DATE'' m)"
  have aI: "isKeywordAllowed i ''ISSUEDATE''"
    using F by (rule allowed02_ISSUEDATE)
  have aD: "\<not> isKeywordAllowed i ''DATE''"
    using F by (rule allowed02_DATE)
  have L: "Mapping.lookup ?m' y
      = (if y = ''ISSUEDATE'' then Some v else if y = ''DATE'' then None else Mapping.lookup m y)" for y
    by (auto simp: lookup_update' lookup_delete')
  show ?thesis
  proof (cases "x = ''ISSUEDATE''")
    case True
    then show ?thesis
      using k aI by (simp add: upgradedLookup_def L)
  next
    case notI: False
    show ?thesis
    proof (cases "x \<noteq> [] \<and> hd x = CHR ''_''")
      case True
      then obtain t where x: "x = CHR ''_'' # t"
        by (cases x) auto
      have tI: "t = ''ISSUEDATE'' \<Longrightarrow> ?thesis"
        using aI by (simp add: upgradedLookup_def L x)
      have other: "t \<noteq> ''ISSUEDATE'' \<Longrightarrow> ?thesis"
        by (auto simp: upgradedLookup_def L x)
      from tI other show ?thesis by blast
    next
      case False
      then show ?thesis
        using notI aD by (auto simp: upgradedLookup_def L)
    qed
  qed
qed

lemma IES_self_shape: "\<exists>m. i = i\<lparr>Keywords := m\<rparr>"
  by (rule exI [of _ "Keywords i"]) simp

lemma UpgradeKeywords_invariant:
  assumes "Format i = IESFormatLM_63_2002"
    and "\<forall>k. Mapping.lookup (Keywords i) k \<noteq> None \<and> \<not> isKeywordAllowed i k \<longrightarrow> length k < 18"
  shows "(\<exists>m. UpgradeKeywords ks i = i\<lparr>Keywords := m\<rparr>)
       \<and> (\<forall>x. upgradedLookup i (Keywords (UpgradeKeywords ks i)) x = upgradedLookup i (Keywords i) x)
       \<and> (\<forall>k. Mapping.lookup (Keywords (UpgradeKeywords ks i)) k \<noteq> None \<and> \<not> isKeywordAllowed i k
              \<longrightarrow> Mapping.lookup (Keywords i) k \<noteq> None \<and> k \<notin> set ks)"
  using assms
proof (induction ks arbitrary: i)
  case Nil
  then show ?case using IES_self_shape [of i] by simp
next
  case (Cons q ks)
  show ?case
  proof (cases "Mapping.lookup (Keywords i) q")
    case None
    then show ?thesis
      using Cons.IH [OF Cons.prems] by auto
  next
    case (Some v)
    show ?thesis
    proof (cases "isKeywordAllowed i q")
      case True
      then show ?thesis
        using Some Cons.IH [OF Cons.prems] by auto
    next
      case na: False
      have len: "length q < 18"
        using Cons.prems(2) Some na by auto
      show ?thesis
      proof (cases "q = ''DATE''")
        case True
        let ?j = "i\<lparr>Keywords := Mapping.update ''ISSUEDATE'' v (Mapping.delete q (Keywords i))\<rparr>"
        have Fj: "Format ?j = IESFormatLM_63_2002"
          using Cons.prems(1) by simp
        have aI: "isKeywordAllowed i ''ISSUEDATE''"
          using Cons.prems(1) by (rule allowed02_ISSUEDATE)
        have Pj: "\<forall>k. Mapping.lookup (Keywords ?j) k \<noteq> None \<and> \<not> isKeywordAllowed ?j k \<longrightarrow> length k < 18"
          using Cons.prems(2) aI by (auto simp: lookup_update' lookup_delete')
        have step: "UpgradeKeywords (q # ks) i = UpgradeKeywords ks ?j"
          using Some na True by simp
        have up: "upgradedLookup ?j m x = upgradedLookup i m x" for m x
          by (simp only: upgradedLookup_def isKeywordAllowed_state)
        have sd: "upgradedLookup i (Keywords ?j) x = upgradedLookup i (Keywords i) x" for x
          using step_date [OF Cons.prems(1), of "Keywords i" v x] Some True by simp
        have dk: "Mapping.lookup (Keywords ?j) k \<noteq> None \<and> \<not> isKeywordAllowed i k
              \<longrightarrow> Mapping.lookup (Keywords i) k \<noteq> None \<and> k \<noteq> q" for k
          using aI by (auto simp: lookup_update' lookup_delete')
        from Cons.IH [OF Fj Pj] step up sd dk show ?thesis
          by (auto simp del: UpgradeKeywords.simps)
      next
        case False
        let ?j = "i\<lparr>Keywords := Mapping.update (CHR ''_'' # q) v (Mapping.delete q (Keywords i))\<rparr>"
        have Fj: "Format ?j = IESFormatLM_63_2002"
          using Cons.prems(1) by simp
        have aq: "isKeywordAllowed i (CHR ''_'' # q)"
          using Cons.prems(1) len by (simp add: allowed02_custom)
        have Pj: "\<forall>k. Mapping.lookup (Keywords ?j) k \<noteq> None \<and> \<not> isKeywordAllowed ?j k \<longrightarrow> length k < 18"
          using Cons.prems(2) aq by (auto simp: lookup_update' lookup_delete')
        have step: "UpgradeKeywords (q # ks) i = UpgradeKeywords ks ?j"
          using Some na False by simp
        have up: "upgradedLookup ?j m x = upgradedLookup i m x" for m x
          by (simp only: upgradedLookup_def isKeywordAllowed_state)
        have sd: "upgradedLookup i (Keywords ?j) x = upgradedLookup i (Keywords i) x" for x
          using step_generic [OF Cons.prems(1) Some na False len, of x] by simp
        have dk: "Mapping.lookup (Keywords ?j) k \<noteq> None \<and> \<not> isKeywordAllowed i k
              \<longrightarrow> Mapping.lookup (Keywords i) k \<noteq> None \<and> k \<noteq> q" for k
          using aq by (auto simp: lookup_update' lookup_delete')
        from Cons.IH [OF Fj Pj] step up sd dk show ?thesis
          by (auto simp del: UpgradeKeywords.simps)
      qed
    qed
  qed
qed

lemma lookup_insertIfMissing:
  "Mapping.lookup (insertIfMissing a u m) k
     = (if k = a \<and> Mapping.lookup m a = None then Some u else Mapping.lookup m k)"
  by (auto simp: insertIfMissing_def lookup_update' split: option.splits)

lemma Upgrade_eq:
  "Upgrade order i =
     (if fst (Validate True i)
      then Ok (UpgradeKeywords order (withPlaceholders (i\<lparr>Format := IESFormatLM_63_2002\<rparr>)))
      else Err (ValidationFailed (snd (Validate True i))))"
  by (simp add: Upgrade_def split: prod.splits)

lemma lookup_withPlaceholders:
  assumes "Format i1 = IESFormatLM_63_2002"
  shows "Mapping.lookup (Keywords (withPlaceholders i1)) k
     = (if (k = ''TEST'' \<or> k = ''TESTLAB'' \<or> k = ''ISSUEDATE'' \<or> k = ''MANUFAC'')
            \<and> Mapping.lookup (Keywords i1) k = None
        then Some ''unknown'' else Mapping.lookup (Keywords i1) k)"
proof (cases "ContainsRequiredKeywords i1")
  case True
  then have "Mapping.lookup (Keywords i1) ''TEST'' \<noteq> None"
    "Mapping.lookup (Keywords i1) ''TESTLAB'' \<noteq> None"
    "Mapping.lookup (Keywords i1) ''ISSUEDATE'' \<noteq> None"
    "Mapping.lookup (Keywords i1) ''MANUFAC'' \<noteq> None"
    using assms by (simp_all add: ContainsRequiredKeywords_def checkIesna02RequiredKeywords_def)
  then show ?thesis
    using True by (auto simp: withPlaceholders_def)
next
  case False
  then have w: "Keywords (withPlaceholders i1)
      = insertIfMissing ''MANUFAC'' ''unknown''
          (insertIfMissing ''ISSUEDATE'' ''unknown''
            (insertIfMissing ''TESTLAB'' ''unknown''
              (insertIfMissing ''TEST'' ''unknown'' (Keywords i1))))"
    by (simp add: withPlaceholders_def)
  consider "k = ''TEST''" | "k = ''TESTLAB''" | "k = ''ISSUEDATE''" | "k = ''MANUFAC''"
    | "k \<noteq> ''TEST''" "k \<noteq> ''TESTLAB''" "k \<noteq> ''ISSUEDATE''" "k \<noteq> ''MANUFAC''"
    by blast
  then show ?thesis
  proof cases
    case 1
    then show ?thesis by (simp add: w lookup_insertIfMissing)
  next
    case 2
    then show ?thesis by (simp add: w lookup_insertIfMissing)
  next
    case 3
    then show ?thesis by (simp add: w lookup_insertIfMissing)
  next
    case 4
    then show ?thesis by (simp add: w lookup_insertIfMissing)
  next
    case 5
    then show ?thesis by (simp add: w lookup_insertIfMissing)
  qed
qed

lemma withPlaceholders_fields: "\<exists>m. withPlaceholders i1 = i1\<lparr>Keywords := m\<rparr>"
proof (cases "ContainsRequiredKeywords i1")
  case True
  then have "withPlaceholders i1 = i1\<lparr>Keywords := Keywords i1\<rparr>"
    by (simp add: withPlaceholders_def)
  then show ?thesis ..
next
  case False
  then have "withPlaceholders i1
      = i1\<lparr>Keywords := insertIfMissing ''MANUFAC'' ''unknown''
          (insertIfMissing ''ISSUEDATE'' ''unknown''
            (insertIfMissing ''TESTLAB'' ''unknown''
              (insertIfMissing ''TEST'' ''unknown'' (Keywords i1))))\<rparr>"
    by (simp add: withPlaceholders_def)
  then show ?thesis ..
qed

lemma upgradedLookup_plain:
  "x \<noteq> ''ISSUEDATE'' \<Longrightarrow> x = [] \<or> hd x \<noteq> CHR ''_'' \<Longrightarrow>
     upgradedLookup i m x = (if isKeywordAllowed i x then Mapping.lookup m x else None)"
  by (auto simp: upgradedLookup_def)

lemma upgradedLookup_ISSUEDATE:
  "upgradedLookup i m ''ISSUEDATE''
     = (if Mapping.lookup m ''DATE'' \<noteq> None then Mapping.lookup m ''DATE''
        else if isKeywordAllowed i ''ISSUEDATE'' then Mapping.lookup m ''ISSUEDATE'' else None)"
  by (simp add: upgradedLookup_def)

lemma upgradedLookup_custom:
  "upgradedLookup i m (CHR ''_'' # k)
     = (if k \<noteq> ''DATE'' \<and> Mapping.lookup m k \<noteq> None \<and> \<not> isKeywordAllowed i k
        then Mapping.lookup m k
        else if isKeywordAllowed i (CHR ''_'' # k) then Mapping.lookup m (CHR ''_'' # k) else None)"
  by (simp add: upgradedLookup_def)

lemma upgradedLookup_clean:
  assumes "\<And>k. \<not> isKeywordAllowed i k \<Longrightarrow> Mapping.lookup m k = None"
    and "\<not> isKeywordAllowed i ''DATE''"
  shows "upgradedLookup i m x = Mapping.lookup m x"
proof -
  have d: "Mapping.lookup m ''DATE'' = None"
    using assms(2) by (rule assms(1))
  have "upgradedLookup i m x = (if isKeywordAllowed i x then Mapping.lookup m x else None)"
  proof (cases "isKeywordAllowed i (tl x)")
    case True
    then show ?thesis
      unfolding upgradedLookup_def using d by simp
  next
    case False
    then have "Mapping.lookup m (tl x) = None"
      by (rule assms(1))
    then show ?thesis
      unfolding upgradedLookup_def using d by simp
  qed
  also have "\<dots> = Mapping.lookup m x"
    using assms(1) [of x] by (cases "isKeywordAllowed i x") simp_all
  finally show ?thesis .
qed

text \<open>
  C8, amended. For every valid model in which each keyword that the 2002 revision does
  not permit has fewer than 18 characters, and for every order in which the map
  iteration may come to the keys, \<open>Upgrade\<close> succeeds; it changes the format, to
  LM-63-2002, and the keyword map, and nothing else; TEST, TESTLAB and MANUFAC keep
  their value or get the placeholder; ISSUEDATE gets the value of DATE if there is one,
  and else keeps its value or gets the placeholder; every other keyword that is not
  permitted has its value under the underscore-prefixed name; afterwards every keyword
  of the map is permitted and the required keywords are present.
\<close>

theorem upgrade_relocates_keywords:
  assumes valid: "fst (Validate True i)"
    and short: "\<forall>k. Mapping.lookup (Keywords i) k \<noteq> None
                  \<and> \<not> isKeywordAllowed (i\<lparr>Format := IESFormatLM_63_2002\<rparr>) k \<longrightarrow> length k < 18"
    and order: "Mapping.keys (Keywords i) \<subseteq> set order"
  shows "\<exists>i'. Upgrade order i = Ok i'
      \<and> i' = i\<lparr>Format := IESFormatLM_63_2002, Keywords := Keywords i'\<rparr>
      \<and> (\<forall>k \<in> {''TEST'', ''TESTLAB'', ''MANUFAC''}.
            Mapping.lookup (Keywords i') k
              = Some (case Mapping.lookup (Keywords i) k of None \<Rightarrow> ''unknown'' | Some v \<Rightarrow> v))
      \<and> Mapping.lookup (Keywords i') ''ISSUEDATE''
          = Some (case Mapping.lookup (Keywords i) ''DATE'' of
                    Some d \<Rightarrow> d
                  | None \<Rightarrow> (case Mapping.lookup (Keywords i) ''ISSUEDATE'' of
                               None \<Rightarrow> ''unknown'' | Some v \<Rightarrow> v))
      \<and> (\<forall>k v. Mapping.lookup (Keywords i) k = Some v \<and> \<not> isKeywordAllowed i' k \<and> k \<noteq> ''DATE''
            \<longrightarrow> Mapping.lookup (Keywords i') (CHR ''_'' # k) = Some v)
      \<and> (\<forall>k. Mapping.lookup (Keywords i') k \<noteq> None \<longrightarrow> isKeywordAllowed i' k)
      \<and> ContainsRequiredKeywords i'"
proof -
  let ?i1 = "i\<lparr>Format := IESFormatLM_63_2002\<rparr>"
  define i2 where "i2 = withPlaceholders ?i1"
  define j where "j = UpgradeKeywords order i2"
  have F1: "Format ?i1 = IESFormatLM_63_2002"
    by simp
  from withPlaceholders_fields [of ?i1]
  obtain m1 where m1: "i2 = ?i1\<lparr>Keywords := m1\<rparr>"
    unfolding i2_def ..
  have F2: "Format i2 = IESFormatLM_63_2002"
    by (simp add: m1)
  have A2: "isKeywordAllowed i2 k = isKeywordAllowed ?i1 k" for k
    by (simp add: m1)
  have L2: "Mapping.lookup (Keywords i2) k
     = (if (k = ''TEST'' \<or> k = ''TESTLAB'' \<or> k = ''ISSUEDATE'' \<or> k = ''MANUFAC'')
            \<and> Mapping.lookup (Keywords i) k = None
        then Some ''unknown'' else Mapping.lookup (Keywords i) k)" for k
    using lookup_withPlaceholders [OF F1, of k] by (simp add: i2_def)
  have req: "isKeywordAllowed ?i1 ''TEST''" "isKeywordAllowed ?i1 ''TESTLAB''"
    "isKeywordAllowed ?i1 ''ISSUEDATE''" "isKeywordAllowed ?i1 ''MANUFAC''"
    by (simp_all add: isKeywordAllowed_def keywordAllowedByIesna02_def)
  have nD: "\<not> isKeywordAllowed ?i1 ''DATE''"
    using F1 by (rule allowed02_DATE)
  have keep: "Mapping.lookup (Keywords i2) k = Mapping.lookup (Keywords i) k"
    if n: "\<not> isKeywordAllowed ?i1 k" for k
  proof -
    have "k \<noteq> ''TEST''" "k \<noteq> ''TESTLAB''" "k \<noteq> ''ISSUEDATE''" "k \<noteq> ''MANUFAC''"
      using n req by fast+
    then show ?thesis
      by (simp add: L2)
  qed
  have P2: "\<forall>k. Mapping.lookup (Keywords i2) k \<noteq> None \<and> \<not> isKeywordAllowed i2 k
              \<longrightarrow> length k < 18"
  proof (intro allI impI)
    fix k
    assume h: "Mapping.lookup (Keywords i2) k \<noteq> None \<and> \<not> isKeywordAllowed i2 k"
    then have n: "\<not> isKeywordAllowed ?i1 k"
      by (simp add: A2)
    then have "Mapping.lookup (Keywords i) k \<noteq> None"
      using h keep [OF n] by simp
    then show "length k < 18"
      using short [rule_format, of k] n by simp
  qed
  note inv = UpgradeKeywords_invariant [OF F2 P2, of order, folded j_def]
  from inv obtain m2 where m2: "j = i2\<lparr>Keywords := m2\<rparr>"
    by (elim conjE exE)
  have same: "upgradedLookup i2 (Keywords j) x = upgradedLookup i2 (Keywords i2) x" for x
    using inv by simp
  have rem: "Mapping.lookup (Keywords i2) k \<noteq> None \<and> k \<notin> set order"
    if "Mapping.lookup (Keywords j) k \<noteq> None" "\<not> isKeywordAllowed i2 k" for k
    using inv that by simp
  have gone: "Mapping.lookup (Keywords j) k = None" if n: "\<not> isKeywordAllowed i2 k" for k
  proof (rule ccontr)
    assume p: "Mapping.lookup (Keywords j) k \<noteq> None"
    have n1: "\<not> isKeywordAllowed ?i1 k"
      using n by (simp add: A2)
    have "Mapping.lookup (Keywords i2) k \<noteq> None" "k \<notin> set order"
      using rem [OF p n] by simp_all
    then have "k \<in> Mapping.keys (Keywords i)" "k \<notin> set order"
      using keep [OF n1] by (simp_all add: keys_dom_lookup domIff)
    then show False
      using order by auto
  qed
  have nD2: "\<not> isKeywordAllowed i2 ''DATE''"
    using nD by (simp add: A2)
  have final: "Mapping.lookup (Keywords j) x = upgradedLookup i2 (Keywords i2) x" for x
    using upgradedLookup_clean [of i2 "Keywords j" x, OF gone nD2] same [of x] by simp
  have Aj: "isKeywordAllowed j k = isKeywordAllowed ?i1 k" for k
    by (simp add: m2 A2)
  have Fj: "Format j = IESFormatLM_63_2002"
    by (simp add: m2 F2)
  have c0: "Upgrade order i = Ok j"
    using valid by (simp add: Upgrade_eq j_def i2_def)
  have "j = i\<lparr>Format := IESFormatLM_63_2002, Keywords := m2\<rparr>"
    by (simp add: m2 m1)
  then have c1: "j = i\<lparr>Format := IESFormatLM_63_2002, Keywords := Keywords j\<rparr>"
    by (metis IES.select_convs(2) IES.surjective IES.update_convs(2))
  have plain: "Mapping.lookup (Keywords j) k
      = Some (case Mapping.lookup (Keywords i) k of None \<Rightarrow> ''unknown'' | Some v \<Rightarrow> v)"
    if "k = ''TEST'' \<or> k = ''TESTLAB'' \<or> k = ''MANUFAC''" for k
  proof -
    have a: "isKeywordAllowed i2 k" "k \<noteq> ''ISSUEDATE''" "k = [] \<or> hd k \<noteq> CHR ''_''"
      using that req by (auto simp: A2)
    show ?thesis
      using that by (auto simp: final upgradedLookup_plain [OF a(2,3)] a(1) L2 split: option.splits)
  qed
  have c2: "\<forall>k \<in> {''TEST'', ''TESTLAB'', ''MANUFAC''}.
            Mapping.lookup (Keywords j) k
              = Some (case Mapping.lookup (Keywords i) k of None \<Rightarrow> ''unknown'' | Some v \<Rightarrow> v)"
    using plain by simp
  have c3: "Mapping.lookup (Keywords j) ''ISSUEDATE''
          = Some (case Mapping.lookup (Keywords i) ''DATE'' of
                    Some d \<Rightarrow> d
                  | None \<Rightarrow> (case Mapping.lookup (Keywords i) ''ISSUEDATE'' of
                               None \<Rightarrow> ''unknown'' | Some v \<Rightarrow> v))"
    using req(3) by (simp add: final upgradedLookup_ISSUEDATE A2 L2 split: option.splits)
  have c4: "\<forall>k v. Mapping.lookup (Keywords i) k = Some v \<and> \<not> isKeywordAllowed j k \<and> k \<noteq> ''DATE''
            \<longrightarrow> Mapping.lookup (Keywords j) (CHR ''_'' # k) = Some v"
  proof (intro allI impI)
    fix k v
    assume h: "Mapping.lookup (Keywords i) k = Some v \<and> \<not> isKeywordAllowed j k \<and> k \<noteq> ''DATE''"
    then have n: "\<not> isKeywordAllowed ?i1 k"
      by (simp add: Aj)
    have "Mapping.lookup (Keywords i2) k = Some v"
      using h keep [OF n] by simp
    then show "Mapping.lookup (Keywords j) (CHR ''_'' # k) = Some v"
      using h n by (simp add: final upgradedLookup_custom A2)
  qed
  have c5: "\<forall>k. Mapping.lookup (Keywords j) k \<noteq> None \<longrightarrow> isKeywordAllowed j k"
  proof (intro allI impI)
    fix k
    assume p: "Mapping.lookup (Keywords j) k \<noteq> None"
    show "isKeywordAllowed j k"
    proof (rule ccontr)
      assume "\<not> isKeywordAllowed j k"
      then have "\<not> isKeywordAllowed i2 k"
        by (simp add: Aj A2)
      from gone [OF this] p show False
        by simp
    qed
  qed
  have c6: "ContainsRequiredKeywords j"
    using c2 c3 Fj by (simp add: ContainsRequiredKeywords_def checkIesna02RequiredKeywords_def)
  show ?thesis
    by (rule exI [of _ j]) (intro conjI c0 c1 c2 c3 c4 c5 c6)
qed

end
